theory Spec2Isabelle
  imports Main "HOL-Library.Word" "HOL-Library.Multiset" "HOL-Library.Char_ord"
    "HOL-Library.List_Lexorder"
begin

unbundle bit_operations_syntax

section \<open>The management API of the control service (control/mgmtapi/api.go)\<close>

text \<open>
  A shallow embedding of the request handlers \<^verbatim>\<open>GetBeacons\<close>, \<^verbatim>\<open>GetBeacon\<close> and
  \<^verbatim>\<open>GetHealth\<close> of \<^verbatim>\<open>control/mgmtapi/api.go\<close>, with the helpers
  \<^verbatim>\<open>UnpackBeaconUsages\<close>, \<^verbatim>\<open>sortWrapper\<close> and \<^verbatim>\<open>sortFactory\<close>.

  A handler writes either a problem document (\<^verbatim>\<open>ErrorResponse\<close>) or a value that it hands
  to the JSON encoder. The model returns that value; the encoder, the HTTP transport and
  the request context are outside the embedding.
\<close>

subsection \<open>Time\<close>

text \<open>
  A \<^verbatim>\<open>time.Time\<close> is modelled by its instant: the number of nanoseconds since the zero
  value \<^verbatim>\<open>time.Time{}\<close>, so the zero value is \<open>0\<close>, \<^verbatim>\<open>a.Before(b)\<close> is \<open>a < b\<close> and
  \<^verbatim>\<open>UTC()\<close>, which changes the location only, is the identity. A \<^verbatim>\<open>time.Duration\<close> is a
  signed 64-bit count of nanoseconds; \<^verbatim>\<open>Time.Sub\<close> saturates at its two ends, and
  \<^verbatim>\<open>time.Until(t)\<close> is \<^verbatim>\<open>t.Sub(time.Now())\<close>.
\<close>

type_synonym time = int
type_synonym duration = int

definition zeroTime :: time where
  "zeroTime = 0"

definition minDuration :: duration where
  "minDuration = - (2 ^ 63)"

definition maxDuration :: duration where
  "maxDuration = 2 ^ 63 - 1"

definition time_Sub :: "time \<Rightarrow> time \<Rightarrow> duration" where
  "time_Sub t u =
     (let d = t - u in
      if d < minDuration then minDuration
      else if maxDuration < d then maxDuration
      else d)"

definition time_Until :: "time \<Rightarrow> time \<Rightarrow> duration" where
  "time_Until now t = time_Sub t now"

definition Hour :: duration where
  "Hour = 3600 * 1000000000"

subsection \<open>Health checks\<close>

text \<open>
  \<^verbatim>\<open>Status\<close>, \<^verbatim>\<open>Check\<close>, \<^verbatim>\<open>CheckData\<close>, \<^verbatim>\<open>Health\<close> and \<^verbatim>\<open>HealthResponse\<close> are types of the
  generated API package. \<^verbatim>\<open>CheckData\<close> is a map from strings to values of any type; the
  values the handler stores are the RFC 3339 rendering of an instant, a boolean, the three
  numbers of a TRC identifier and a CA status.
\<close>

datatype Status = Passing | Degraded | Failing

type_synonym CAHealthStatus = string

definition Available :: CAHealthStatus where
  "Available = ''available''"

definition Starting :: CAHealthStatus where
  "Starting = ''starting''"

definition Stopping :: CAHealthStatus where
  "Stopping = ''stopping''"

definition Unavailable :: CAHealthStatus where
  "Unavailable = ''unavailable''"

datatype data_value =
    FormatRFC3339 time
  | BoolValue bool
  | ISDValue "16 word"
  | VersionValue "64 word"
  | CAStatusValue CAHealthStatus

type_synonym CheckData = "string \<rightharpoonup> data_value"

record Check =
  check_Status :: Status
  check_Name :: string
  check_Detail :: "string option"
  check_Data :: CheckData

record SignerHealthData =
  SignerMissing :: bool
  SignerMissingDetail :: string
  Expiration :: time
  InGrace :: bool

record TRCID =
  trc_ISD :: "16 word"
  trc_Base :: "64 word"
  trc_Serial :: "64 word"

record TRCHealthData =
  TRCNotFound :: bool
  TRCNotFoundDetail :: string
  TRCID :: TRCID

text \<open>
  The three probes of the \<^verbatim>\<open>Healther\<close> interface read state and take no argument but the
  request context, so one request sees one value of each.
\<close>

record Healther =
  GetSignerHealth :: SignerHealthData
  GetTRCHealth :: TRCHealthData
  GetCAHealth :: "CAHealthStatus \<times> bool"

record Health =
  health_Status :: Status
  health_Checks :: "Check list"

text \<open>The signer check: the first \<^verbatim>\<open>switch\<close> of \<^verbatim>\<open>GetHealth\<close>.\<close>

definition signerCheck :: "time \<Rightarrow> SignerHealthData \<Rightarrow> Check" where
  "signerCheck now signerHealth =
     (let c = \<lparr>check_Status = Passing, check_Name = ''valid signer available'',
                check_Detail = None, check_Data = Map.empty\<rparr>
      in
      if SignerMissing signerHealth then
        (let c1 = c\<lparr>check_Status := Failing\<rparr> in
         if SignerMissingDetail signerHealth \<noteq> ''''
         then c1\<lparr>check_Detail := Some (SignerMissingDetail signerHealth)\<rparr>
         else c1)
      else if time_Until now (Expiration signerHealth) \<le> 0 then
        c\<lparr>check_Status := Failing,
          check_Detail := Some ''signer certificate has expired'',
          check_Data := [''expires_at'' \<mapsto> FormatRFC3339 (Expiration signerHealth)]\<rparr>
      else if InGrace signerHealth then
        c\<lparr>check_Status := Degraded,
          check_Data := [''expires_at'' \<mapsto> FormatRFC3339 (Expiration signerHealth),
                         ''in_grace'' \<mapsto> BoolValue True],
          check_Detail := Some (''signer certificate is authenticated'' @ [CHR 0x0A] @
                                [CHR 0x09, CHR 0x09] @ ''by TRC in grace period'')\<rparr>
      else if time_Until now (Expiration signerHealth) < 6 * Hour then
        c\<lparr>check_Status := Degraded,
          check_Data := [''expires_at'' \<mapsto> FormatRFC3339 (Expiration signerHealth)],
          check_Detail := Some ''signer certificate is close to expiration''\<rparr>
      else
        c\<lparr>check_Data := [''expires_at'' \<mapsto> FormatRFC3339 (Expiration signerHealth)]\<rparr>)"

text \<open>The trust-root check: the detail is set first, the status and the data after it.\<close>

definition trcCheck :: "TRCHealthData \<Rightarrow> Check" where
  "trcCheck trcHealthData =
     (let c = \<lparr>check_Status = Failing, check_Name = ''TRC for local ISD available'',
                check_Detail = None, check_Data = Map.empty\<rparr>;
          c1 = (if TRCNotFoundDetail trcHealthData \<noteq> ''''
                then c\<lparr>check_Detail := Some (TRCNotFoundDetail trcHealthData)\<rparr>
                else c)
      in
      if \<not> TRCNotFound trcHealthData then
        c1\<lparr>check_Status := Passing,
           check_Data := [''base_number'' \<mapsto> VersionValue (trc_Base (TRCID trcHealthData)),
                          ''serial_number'' \<mapsto> VersionValue (trc_Serial (TRCID trcHealthData)),
                          ''isd'' \<mapsto> ISDValue (trc_ISD (TRCID trcHealthData))]\<rparr>
      else c1)"

text \<open>The CA check, appended only when the probe's second result is true.\<close>

definition caCheck :: "CAHealthStatus \<Rightarrow> Check" where
  "caCheck status =
     (let c = \<lparr>check_Status = Degraded, check_Name = ''CPPKI CA Connection'',
                check_Detail = None, check_Data = Map.empty\<rparr>;
          c1 = (if status = Available then c\<lparr>check_Status := Passing\<rparr> else c)
      in c1\<lparr>check_Data := [''status'' \<mapsto> CAStatusValue status]\<rparr>)"

definition healthChecks :: "time \<Rightarrow> Healther \<Rightarrow> Check list" where
  "healthChecks now h =
     (let checks = [] @ [signerCheck now (GetSignerHealth h)];
          checks1 = checks @ [trcCheck (GetTRCHealth h)]
      in case GetCAHealth h of
           (status, ok) \<Rightarrow> if ok then checks1 @ [caCheck status] else checks1)"

text \<open>
  Modelled from the spec: \<^verbatim>\<open>healthapi.AggregateHealthStatus\<close> of
  \<^verbatim>\<open>private/mgmtapi/health/api\<close>, which is not among the sources. The spec: the aggregate
  status is the least healthy of all included checks under the total order
  Failing > Degraded > Passing.
\<close>

fun severity :: "Status \<Rightarrow> nat" where
  "severity Passing = 0"
| "severity Degraded = 1"
| "severity Failing = 2"

definition lessHealthy :: "Status \<Rightarrow> Status \<Rightarrow> Status" where
  "lessHealthy a b = (if severity a < severity b then b else a)"

definition AggregateHealthStatus :: "Status list \<Rightarrow> Status" where
  "AggregateHealthStatus statuses = foldl lessHealthy Passing statuses"

definition GetHealth :: "time \<Rightarrow> Healther \<Rightarrow> Health" where
  "GetHealth now h =
     (let checks = healthChecks now h
      in \<lparr>health_Status = AggregateHealthStatus (map check_Status checks),
          health_Checks = checks\<rparr>)"

subsection \<open>Beacon usages\<close>

text \<open>
  Modelled from the spec: the four usage flags of package \<^verbatim>\<open>control/beacon\<close> and the four
  usage tokens of the generated API package, neither of which is among the sources. The
  spec: four flags exist, Up-Registration, Down-Registration, Core-Registration and
  Propagation, each a distinct bit; the tokens are the snake case string constants that
  \<^verbatim>\<open>UnpackBeaconUsages\<close> documents. \<^verbatim>\<open>beacon.Usage\<close> is a Go \<^verbatim>\<open>int\<close>.
\<close>

type_synonym Usage = "64 word"

definition UsageUpReg :: Usage where
  "UsageUpReg = 0x01"

definition UsageDownReg :: Usage where
  "UsageDownReg = 0x02"

definition UsageCoreReg :: Usage where
  "UsageCoreReg = 0x04"

definition UsageProp :: Usage where
  "UsageProp = 0x08"

type_synonym BeaconUsage = string

definition UpRegistration :: BeaconUsage where
  "UpRegistration = ''up_registration''"

definition DownRegistration :: BeaconUsage where
  "DownRegistration = ''down_registration''"

definition CoreRegistration :: BeaconUsage where
  "CoreRegistration = ''core_registration''"

definition Propagation :: BeaconUsage where
  "Propagation = ''propagation''"

definition UnpackBeaconUsages :: "Usage \<Rightarrow> string list" where
  "UnpackBeaconUsages u =
     (let names = [];
          names1 = (if u AND UsageUpReg \<noteq> 0 then names @ [UpRegistration] else names);
          names2 = (if u AND UsageDownReg \<noteq> 0 then names1 @ [DownRegistration] else names1);
          names3 = (if u AND UsageCoreReg \<noteq> 0 then names2 @ [CoreRegistration] else names2);
          names4 = (if u AND UsageProp \<noteq> 0 then names3 @ [Propagation] else names3)
      in names4)"

subsection \<open>Errors and responses\<close>

text \<open>
  Errors are values. \<^verbatim>\<open>serrors.New\<close> takes a message and a context of key-value pairs,
  \<^verbatim>\<open>serrors.Wrap\<close> a message and a cause; \<^verbatim>\<open>serrors.List\<close> is a list of errors that is
  an error itself, and its \<^verbatim>\<open>ToError\<close> is \<^verbatim>\<open>nil\<close> for the empty list. An error of a
  library outside the repository is \<open>External\<close>. The text of an error (\<^verbatim>\<open>err.Error()\<close>)
  is kept as \<open>ErrorString err\<close>.
\<close>

datatype ctx_value = StringValue string | IntValue int

datatype error =
    New string "(string \<times> ctx_value) list"
  | Wrap string error
  | External string
  | ErrList "error list"

definition ToError :: "error list \<Rightarrow> error option" where
  "ToError errs = (if length errs = 0 then None else Some (ErrList errs))"

datatype problem_type = BadRequest | InternalError

datatype detail = ErrorString error | Text string

definition StatusBadRequest :: int where
  "StatusBadRequest = 400"

definition StatusInternalServerError :: int where
  "StatusInternalServerError = 500"

record Problem =
  problem_Detail :: "detail option"
  problem_Status :: int
  problem_Title :: string
  problem_Type :: "problem_type option"

subsection \<open>Stored beacons and their public form\<close>

text \<open>
  A stored beacon is \<^verbatim>\<open>beaconstorage.Beacon\<close>: a path segment with the ingress interface
  it was received on, a usage bitmask and the time of its last update. Of a path segment
  the handlers read the info timestamp, the AS entries (the local ISD-AS in its string
  form, the ingress and the egress interface of the hop field), \<^verbatim>\<open>MinExpiry()\<close> and
  \<^verbatim>\<open>segapi.SegID\<close>; the model keeps each of these as a field.
\<close>

type_synonym IA = "64 word"

record ASEntry =
  Local_String :: string
  ConsIngress :: "16 word"
  ConsEgress :: "16 word"

record PathSegment =
  Info_Timestamp :: time
  ASEntries :: "ASEntry list"
  MinExpiry :: time
  SegID :: string

record StoredBeacon =
  Segment :: PathSegment
  InIfID :: "16 word"
  Usage :: Usage
  stored_LastUpdated :: time

record Hop =
  hop_Interface :: int
  hop_IsdAs :: string

record Beacon =
  beacon_Usages :: "BeaconUsage list"
  beacon_IngressInterface :: int
  beacon_Id :: string
  beacon_LastUpdated :: time
  beacon_Timestamp :: time
  beacon_Expiration :: time
  beacon_Hops :: "Hop list"

text \<open>
  The loop over the AS entries: every entry but the first contributes its ingress hop,
  and every entry its egress hop.
\<close>

fun hopsLoop :: "nat \<Rightarrow> ASEntry list \<Rightarrow> Hop list \<Rightarrow> Hop list" where
  "hopsLoop i [] hops = hops"
| "hopsLoop i (as # rest) hops =
     (let hops1 = (if i \<noteq> 0
                   then hops @ [\<lparr>hop_Interface = uint (ConsIngress as),
                                  hop_IsdAs = Local_String as\<rparr>]
                   else hops);
          hops2 = hops1 @ [\<lparr>hop_Interface = uint (ConsEgress as),
                             hop_IsdAs = Local_String as\<rparr>]
      in hopsLoop (i + 1) rest hops2)"

text \<open>
  The projection of one stored beacon, written out twice in the source: in the loop of
  \<^verbatim>\<open>GetBeacons\<close> and at the end of \<^verbatim>\<open>GetBeacon\<close>.
\<close>

definition projectBeacon :: "StoredBeacon \<Rightarrow> Beacon" where
  "projectBeacon result =
     (let s = Segment result
      in \<lparr>beacon_Usages = UnpackBeaconUsages (Usage result),
          beacon_IngressInterface = uint (InIfID result),
          beacon_Id = SegID s,
          beacon_LastUpdated = stored_LastUpdated result,
          beacon_Timestamp = Info_Timestamp s,
          beacon_Expiration = MinExpiry s,
          beacon_Hops = hopsLoop 0 (ASEntries s) []\<rparr>)"

datatype response =
    ErrorResponse Problem
  | BeaconsResponse "Beacon list"
  | BeaconResponse Beacon
  | Panic

subsection \<open>Sorting\<close>

text \<open>
  \<^verbatim>\<open>sortWrapper\<close> implements \<^verbatim>\<open>sort.Interface\<close> over a slice of beacons and a less
  function. \<^verbatim>\<open>Swap\<close> changes the slice in place; the model returns the new wrapper.
\<close>

record sortWrapper =
  beacons :: "Beacon list"
  wrapper_less :: "Beacon \<Rightarrow> Beacon \<Rightarrow> bool"

definition Len :: "sortWrapper \<Rightarrow> nat" where
  "Len w = length (beacons w)"

definition Less :: "sortWrapper \<Rightarrow> nat \<Rightarrow> nat \<Rightarrow> bool" where
  "Less w i j = wrapper_less w (beacons w ! i) (beacons w ! j)"

definition Swap :: "sortWrapper \<Rightarrow> nat \<Rightarrow> nat \<Rightarrow> sortWrapper" where
  "Swap w i j = w\<lparr>beacons := (beacons w)[i := beacons w ! j, j := beacons w ! i]\<rparr>"

text \<open>
  \<^verbatim>\<open>sortFactory\<close>: the less function for a sort key, or an error for an unknown key.
  The comparison of two ISD-AS strings is Go's, byte by byte.
\<close>

definition sortFactory :: "string option \<Rightarrow> error + (Beacon list \<Rightarrow> sortWrapper)" where
  "sortFactory sortParam =
     (let by = (case sortParam of None \<Rightarrow> ''last_updated'' | Some s \<Rightarrow> s)
      in
      if by = ''expiration_time'' then
        Inr (\<lambda>bs. \<lparr>beacons = bs, wrapper_less = (\<lambda>a b. beacon_Expiration a < beacon_Expiration b)\<rparr>)
      else if by = ''info_time'' then
        Inr (\<lambda>bs. \<lparr>beacons = bs, wrapper_less = (\<lambda>a b. beacon_Timestamp a < beacon_Timestamp b)\<rparr>)
      else if by = ''start_isd_as'' then
        Inr (\<lambda>bs. \<lparr>beacons = bs, wrapper_less = (\<lambda>a b.
          if length (beacon_Hops a) = 0 \<or> length (beacon_Hops b) = 0
          then length (beacon_Hops a) < length (beacon_Hops b)
          else hop_IsdAs (beacon_Hops a ! 0) < hop_IsdAs (beacon_Hops b ! 0))\<rparr>)
      else if by = ''last_updated'' then
        Inr (\<lambda>bs. \<lparr>beacons = bs, wrapper_less = (\<lambda>a b. beacon_LastUpdated a < beacon_LastUpdated b)\<rparr>)
      else if by = ''ingress_interface'' then
        Inr (\<lambda>bs. \<lparr>beacons = bs,
                    wrapper_less = (\<lambda>a b. beacon_IngressInterface a < beacon_IngressInterface b)\<rparr>)
      else Inl (New ''unknown query parameter'' [(''sort'', StringValue by)]))"

text \<open>
  \<^verbatim>\<open>sort.Reverse\<close> of the standard library wraps an interface and swaps the two arguments
  of its \<^verbatim>\<open>Less\<close>; length and swap are those of the wrapped value.
\<close>

definition sort_Reverse :: "sortWrapper \<Rightarrow> sortWrapper" where
  "sort_Reverse w = w\<lparr>wrapper_less := (\<lambda>a b. wrapper_less w b a)\<rparr>"

subsection \<open>The sort of the standard library\<close>

text \<open>
  \<^verbatim>\<open>sort.Sort\<close> belongs to Go's standard library, not to the repository. Its
  documentation promises an ascending order by \<^verbatim>\<open>Less\<close> and states that the sort is not
  guaranteed to be stable. The handlers are proved correct against that promise, with the
  sort as a parameter. To run a request on concrete beacons, this subsection follows the
  library's implementation (the pattern-defeating quicksort of \<^verbatim>\<open>sort/zsortinterface.go\<close>,
  Go 1.19 and later) on the paths that short slices take: a slice of at most 12 elements is
  sorted by insertion; a longer slice of fewer than 50 elements gets a pivot by the
  median of three, is left alone when it is sorted already, and is partitioned once
  otherwise, each side of at most 12 elements being sorted by insertion. Where a run
  would leave these paths (a side longer than 12 elements, a slice of 50 elements or
  more), the result is \<open>None\<close>: the model says nothing about such a run.

  Indices are natural numbers. In the partition the left index starts at \<open>a + 1\<close>, so the
  right index never falls below 1 while the two have not crossed; the guard \<open>0 < j\<close>
  of \<open>skipNotLess\<close> states this and makes the function total.
\<close>

text \<open>\<^verbatim>\<open>insertionSort\<close>: the inner and the outer loop.\<close>

function insertionSortInner :: "sortWrapper \<Rightarrow> nat \<Rightarrow> nat \<Rightarrow> sortWrapper" where
  "insertionSortInner data a j =
     (if j > a \<and> Less data j (j - 1)
      then insertionSortInner (Swap data j (j - 1)) a (j - 1)
      else data)"
  by pat_completeness auto
termination
  by (relation "measure (\<lambda>(data, a, j). j)") auto

declare insertionSortInner.simps [simp del]

function insertionSortOuter :: "sortWrapper \<Rightarrow> nat \<Rightarrow> nat \<Rightarrow> nat \<Rightarrow> sortWrapper" where
  "insertionSortOuter data a b i =
     (if i < b
      then insertionSortOuter (insertionSortInner data a i) a b (i + 1)
      else data)"
  by pat_completeness auto
termination
  by (relation "measure (\<lambda>(data, a, b, i). b - i)") auto

declare insertionSortOuter.simps [simp del]

definition insertionSort :: "sortWrapper \<Rightarrow> nat \<Rightarrow> nat \<Rightarrow> sortWrapper" where
  "insertionSort data a b = insertionSortOuter data a b (a + 1)"

text \<open>\<^verbatim>\<open>choosePivot\<close> with \<^verbatim>\<open>order2\<close> and \<^verbatim>\<open>median\<close>, for fewer than 50 elements.\<close>

datatype sortedHint = unknownHint | increasingHint | decreasingHint

definition order2 :: "sortWrapper \<Rightarrow> nat \<Rightarrow> nat \<Rightarrow> nat \<Rightarrow> nat \<times> nat \<times> nat" where
  "order2 data a b swaps =
     (if Less data b a then (b, a, swaps + 1) else (a, b, swaps))"

definition median :: "sortWrapper \<Rightarrow> nat \<Rightarrow> nat \<Rightarrow> nat \<Rightarrow> nat \<Rightarrow> nat \<times> nat" where
  "median data a b c swaps =
     (case order2 data a b swaps of (a1, b1, swaps1) \<Rightarrow>
      case order2 data b1 c swaps1 of (b2, c2, swaps2) \<Rightarrow>
      case order2 data a1 b2 swaps2 of (a3, b3, swaps3) \<Rightarrow> (b3, swaps3))"

definition choosePivot :: "sortWrapper \<Rightarrow> nat \<Rightarrow> nat \<Rightarrow> nat \<times> sortedHint" where
  "choosePivot data a b =
     (let l = b - a;
          i = a + l div 4 * 1;
          j = a + l div 4 * 2;
          k = a + l div 4 * 3;
          (j1, swaps) = (if l \<ge> 8 then median data i j k 0 else (j, 0))
      in if swaps = 0 then (j1, increasingHint)
         else if swaps = 4 * 3 then (j1, decreasingHint)
         else (j1, unknownHint))"

text \<open>
  \<^verbatim>\<open>partialInsertionSort\<close> on fewer than 50 elements: it moves nothing and reports
  whether the range is sorted.
\<close>

function sortedPrefix :: "sortWrapper \<Rightarrow> nat \<Rightarrow> nat \<Rightarrow> nat" where
  "sortedPrefix data b i =
     (if i < b \<and> \<not> Less data i (i - 1) then sortedPrefix data b (i + 1) else i)"
  by pat_completeness auto
termination
  by (relation "measure (\<lambda>(data, b, i). b - i)") auto

declare sortedPrefix.simps [simp del]

definition partialInsertionSort :: "sortWrapper \<Rightarrow> nat \<Rightarrow> nat \<Rightarrow> bool" where
  "partialInsertionSort data a b = (sortedPrefix data b (a + 1) = b)"

text \<open>\<^verbatim>\<open>partition\<close>: the two scans, the loop that swaps, and the function itself.\<close>

function skipLess :: "sortWrapper \<Rightarrow> nat \<Rightarrow> nat \<Rightarrow> nat \<Rightarrow> nat" where
  "skipLess data a i j =
     (if i \<le> j \<and> Less data i a then skipLess data a (i + 1) j else i)"
  by pat_completeness auto
termination
  by (relation "measure (\<lambda>(data, a, i, j). Suc j - i)") auto

declare skipLess.simps [simp del]

function skipNotLess :: "sortWrapper \<Rightarrow> nat \<Rightarrow> nat \<Rightarrow> nat \<Rightarrow> nat" where
  "skipNotLess data a i j =
     (if i \<le> j \<and> 0 < j \<and> \<not> Less data j a then skipNotLess data a i (j - 1) else j)"
  by pat_completeness auto
termination
  by (relation "measure (\<lambda>(data, a, i, j). j)") auto

declare skipNotLess.simps [simp del]

lemma skipLess_ge: "i \<le> skipLess data a i j"
proof (induction data a i j rule: skipLess.induct)
  case (1 data a i j)
  show ?case
  proof (cases "i \<le> j \<and> Less data i a")
    case True
    with "1.IH" have "i + 1 \<le> skipLess data a (i + 1) j"
      by simp
    with True show ?thesis
      by (subst skipLess.simps) simp
  next
    case False
    then show ?thesis
      by (subst skipLess.simps) auto
  qed
qed

lemma skipNotLess_le: "skipNotLess data a i j \<le> j"
proof (induction data a i j rule: skipNotLess.induct)
  case (1 data a i j)
  show ?case
  proof (cases "i \<le> j \<and> 0 < j \<and> \<not> Less data j a")
    case True
    with "1.IH" have "skipNotLess data a i (j - 1) \<le> j - 1"
      by simp
    with True show ?thesis
      by (subst skipNotLess.simps) simp
  next
    case False
    then show ?thesis
      by (subst skipNotLess.simps) auto
  qed
qed

function partitionLoop :: "sortWrapper \<Rightarrow> nat \<Rightarrow> nat \<Rightarrow> nat \<Rightarrow> sortWrapper \<times> nat" where
  "partitionLoop data a i j =
     (let i1 = skipLess data a i j;
          j1 = skipNotLess data a i1 j
      in if i1 > j1 then (data, j1)
         else partitionLoop (Swap data i1 j1) a (i1 + 1) (j1 - 1))"
  by pat_completeness auto
termination
proof (relation "measure (\<lambda>(data, a, i, j). Suc j - i)")
  show "wf (measure (\<lambda>(data, a, i, j). Suc j - i))"
    by simp
next
  fix data :: sortWrapper and a i j i1 j1 :: nat
  assume i1: "i1 = skipLess data a i j" and j1: "j1 = skipNotLess data a i1 j"
    and le: "\<not> j1 < i1"
  have "i \<le> i1"
    unfolding i1 by (rule skipLess_ge)
  moreover have "j1 \<le> j"
    unfolding j1 by (rule skipNotLess_le)
  ultimately show "((Swap data i1 j1, a, i1 + 1, j1 - 1), data, a, i, j)
      \<in> measure (\<lambda>(data, a, i, j). Suc j - i)"
    using le by simp
qed

declare partitionLoop.simps [simp del]

definition partition :: "sortWrapper \<Rightarrow> nat \<Rightarrow> nat \<Rightarrow> nat \<Rightarrow> sortWrapper \<times> nat \<times> bool" where
  "partition data a b pivot =
     (let data1 = Swap data a pivot;
          i = skipLess data1 a (a + 1) (b - 1);
          j = skipNotLess data1 a i (b - 1)
      in if i > j then (Swap data1 j a, j, True)
         else (case partitionLoop (Swap data1 i j) a (i + 1) (j - 1) of
                 (data2, j2) \<Rightarrow> (Swap data2 j2 a, j2, False)))"

text \<open>
  \<^verbatim>\<open>pdqsort\<close> on a range of at most 12 elements, then on a whole slice, then
  \<^verbatim>\<open>sort.Sort\<close>.
\<close>

definition pdqsortShort :: "sortWrapper \<Rightarrow> nat \<Rightarrow> nat \<Rightarrow> sortWrapper option" where
  "pdqsortShort data a b =
     (if b - a \<le> 12 then Some (insertionSort data a b) else None)"

definition pdqsort :: "sortWrapper \<Rightarrow> nat \<Rightarrow> nat \<Rightarrow> sortWrapper option" where
  "pdqsort data a b =
     (let length = b - a
      in if length \<le> 12 then Some (insertionSort data a b)
         else if length \<ge> 50 \<or> a > 0 then None
         else
           (case choosePivot data a b of (pivot, hint) \<Rightarrow>
              if hint = decreasingHint then None
              else if hint = increasingHint \<and> partialInsertionSort data a b then Some data
              else
                (case partition data a b pivot of (data1, mid, alreadyPartitioned) \<Rightarrow>
                   (let leftLen = mid - a; rightLen = b - mid
                    in if leftLen < rightLen
                       then (case pdqsortShort data1 a mid of
                               None \<Rightarrow> None
                             | Some data2 \<Rightarrow> pdqsortShort data2 (mid + 1) b)
                       else (case pdqsortShort data1 (mid + 1) b of
                               None \<Rightarrow> None
                             | Some data2 \<Rightarrow> pdqsortShort data2 a mid)))))"

definition sort_Sort :: "sortWrapper \<Rightarrow> sortWrapper option" where
  "sort_Sort data =
     (let n = Len data
      in if n \<le> 1 then Some data else pdqsort data 0 n)"

text \<open>
  The model as a value for the parameter of \<^verbatim>\<open>GetBeacons\<close>. A run that the model does
  not cover leaves the slice as it is; every statement that uses \<open>librarySort\<close> on a
  concrete slice also states that \<open>sort_Sort\<close> covers the run.
\<close>

definition librarySort :: "sortWrapper \<Rightarrow> sortWrapper" where
  "librarySort data = (case sort_Sort data of Some data1 \<Rightarrow> data1 | None \<Rightarrow> data)"

subsection \<open>Listing beacons\<close>

text \<open>
  \<^verbatim>\<open>beaconstorage.QueryParams\<close> is the filter handed to the beacon store; the handlers set
  the fields below and leave the others at their zero value.
\<close>

record QueryParams =
  SegIDs :: "8 word list list"
  StartsAt :: "IA list"
  query_Usages :: "Usage list"
  IngressInterfaces :: "16 word list"
  query_ValidAt :: time

definition emptyQueryParams :: QueryParams where
  "emptyQueryParams =
     \<lparr>SegIDs = [], StartsAt = [], query_Usages = [], IngressInterfaces = [],
      query_ValidAt = zeroTime\<rparr>"

text \<open>The query parameters of a request; an absent parameter is a \<^verbatim>\<open>nil\<close> pointer.\<close>

record GetBeaconsParams =
  StartIsdAs :: "string option"
  Usages :: "BeaconUsage list option"
  IngressInterface :: "int option"
  All :: "bool option"
  ValidAt :: "time option"
  Sort :: "string option"
  Desc :: "bool option"

text \<open>The loop over the usage tokens, with the \<^verbatim>\<open>switch\<close> in the order of the source.\<close>

fun usagesLoop :: "BeaconUsage list \<Rightarrow> Usage \<times> error list \<Rightarrow> Usage \<times> error list" where
  "usagesLoop [] (usage, errs) = (usage, errs)"
| "usagesLoop (usageFlag # rest) (usage, errs) =
     usagesLoop rest
       (if usageFlag = CoreRegistration then (usage OR UsageCoreReg, errs)
        else if usageFlag = DownRegistration then (usage OR UsageDownReg, errs)
        else if usageFlag = Propagation then (usage OR UsageProp, errs)
        else if usageFlag = UpRegistration then (usage OR UsageUpReg, errs)
        else (usage, errs @ [New ''unknown value for parameter''
                               [(''usage'', StringValue usageFlag)]]))"

text \<open>
  The first part of \<^verbatim>\<open>GetBeacons\<close>, up to the call of \<^verbatim>\<open>sortFactory\<close>, builds the
  query and the list of errors, one parameter after the other. Each block of the source
  is a step on the pair of the two. \<^verbatim>\<open>addr.ParseIA\<close> is a parameter, and so is the
  current time that \<^verbatim>\<open>time.Now()\<close> returns.
\<close>

definition parseStartIsdAs ::
  "(string \<Rightarrow> error + IA) \<Rightarrow> GetBeaconsParams \<Rightarrow> QueryParams \<times> error list \<Rightarrow>
   QueryParams \<times> error list" where
  "parseStartIsdAs ParseIA params qe =
     (case qe of (q, errs) \<Rightarrow>
        (case StartIsdAs params of
           None \<Rightarrow> (q, errs)
         | Some s \<Rightarrow>
             (case ParseIA s of
                Inr ia \<Rightarrow> (q\<lparr>StartsAt := [ia]\<rparr>, errs)
              | Inl err \<Rightarrow> (q, errs @ [Wrap ''parsing start_isd_as'' err]))))"

definition parseUsages ::
  "GetBeaconsParams \<Rightarrow> QueryParams \<times> error list \<Rightarrow> QueryParams \<times> error list" where
  "parseUsages params qe =
     (case qe of (q, errs) \<Rightarrow>
        (case Usages params of
           None \<Rightarrow> (q, errs)
         | Some flags \<Rightarrow>
             (case usagesLoop flags (0, errs) of
                (usage, errs') \<Rightarrow> (q\<lparr>query_Usages := [usage]\<rparr>, errs'))))"

definition parseIngressInterface ::
  "GetBeaconsParams \<Rightarrow> QueryParams \<times> error list \<Rightarrow> QueryParams \<times> error list" where
  "parseIngressInterface params qe =
     (case qe of (q, errs) \<Rightarrow>
        (case IngressInterface params of
           None \<Rightarrow> (q, errs)
         | Some i \<Rightarrow>
             (q\<lparr>IngressInterfaces := [word_of_int i]\<rparr>,
              if i < 0 \<or> i > 65535
              then errs @ [New ''value for parameter out of range''
                             [(''ingress_interface'', IntValue i)]]
              else errs)))"

definition selectValidAt :: "time \<Rightarrow> GetBeaconsParams \<Rightarrow> QueryParams \<Rightarrow> QueryParams" where
  "selectValidAt now params q =
     (if All params \<noteq> None \<and> the (All params) then q\<lparr>query_ValidAt := zeroTime\<rparr>
      else if ValidAt params \<noteq> None then q\<lparr>query_ValidAt := the (ValidAt params)\<rparr>
      else q\<lparr>query_ValidAt := now\<rparr>)"

definition buildQuery ::
  "(string \<Rightarrow> error + IA) \<Rightarrow> time \<Rightarrow> GetBeaconsParams \<Rightarrow>
   QueryParams \<times> error list \<times> (Beacon list \<Rightarrow> sortWrapper) option" where
  "buildQuery ParseIA now params =
     (case parseIngressInterface params
             (parseUsages params
               (parseStartIsdAs ParseIA params (emptyQueryParams, []))) of
        (q, errs) \<Rightarrow>
          (case sortFactory (Sort params) of
             Inl err \<Rightarrow> (selectValidAt now params q, errs @ [err], None)
           | Inr sortFn \<Rightarrow> (selectValidAt now params q, errs, Some sortFn)))"

text \<open>
  The sorter that \<^verbatim>\<open>GetBeacons\<close> hands to \<^verbatim>\<open>sort.Sort\<close>: the wrapper of the projected
  beacons, wrapped once more by \<^verbatim>\<open>sort.Reverse\<close> when \<^verbatim>\<open>desc\<close> is supplied and true.
\<close>

definition requestSorter ::
  "(Beacon list \<Rightarrow> sortWrapper) \<Rightarrow> GetBeaconsParams \<Rightarrow> Beacon list \<Rightarrow> sortWrapper" where
  "requestSorter sortFn params rep =
     (let sorter = sortFn rep
      in if Desc params \<noteq> None \<and> the (Desc params) then sort_Reverse sorter else sorter)"

text \<open>
  \<^verbatim>\<open>GetBeacons\<close>. The beacon store is a function from the query to an error or the stored
  beacons, and the second component of the result lists the queries the handler sent to
  it. \<^verbatim>\<open>sort.Sort\<close> of the standard library is the parameter \<open>sortImpl\<close>: it takes the
  sorter and returns it with the slice reordered. A call of the \<^verbatim>\<open>nil\<close> sorter would
  panic.
\<close>

definition GetBeacons ::
  "(string \<Rightarrow> error + IA) \<Rightarrow> (QueryParams \<Rightarrow> error + StoredBeacon list) \<Rightarrow>
   (sortWrapper \<Rightarrow> sortWrapper) \<Rightarrow> time \<Rightarrow> GetBeaconsParams \<Rightarrow>
   response \<times> QueryParams list" where
  "GetBeacons ParseIA store sortImpl now params =
     (case buildQuery ParseIA now params of
        (q, errs, sortFn) \<Rightarrow>
          (case ToError errs of
             Some err \<Rightarrow>
               (ErrorResponse
                  \<lparr>problem_Detail = Some (ErrorString err),
                   problem_Status = StatusBadRequest,
                   problem_Title = ''malformed query parameters'',
                   problem_Type = Some BadRequest\<rparr>, [])
           | None \<Rightarrow>
               (case store q of
                  Inl err \<Rightarrow>
                    (ErrorResponse
                       \<lparr>problem_Detail = Some (ErrorString err),
                        problem_Status = StatusInternalServerError,
                        problem_Title = ''error getting beacons'',
                        problem_Type = Some InternalError\<rparr>, [q])
                | Inr results \<Rightarrow>
                    (let rep = map projectBeacon results
                     in case sortFn of
                          None \<Rightarrow> (Panic, [q])
                        | Some f \<Rightarrow>
                            (BeaconsResponse (beacons (sortImpl (requestSorter f params rep))),
                             [q])))))"

subsection \<open>Looking up one beacon\<close>

text \<open>The decimal form of a count, as the verb \<^verbatim>\<open>%d\<close> of \<^verbatim>\<open>fmt.Sprintf\<close> prints it.\<close>

fun decimal :: "nat \<Rightarrow> string" where
  "decimal n =
     (if n < 10 then [char_of (48 + n)]
      else decimal (n div 10) @ [char_of (48 + n mod 10)])"

text \<open>
  \<^verbatim>\<open>GetBeacon\<close>. \<^verbatim>\<open>hex.DecodeString\<close> of the standard library is a parameter.
\<close>

definition GetBeacon ::
  "(string \<Rightarrow> error + 8 word list) \<Rightarrow> (QueryParams \<Rightarrow> error + StoredBeacon list) \<Rightarrow>
   string \<Rightarrow> response \<times> QueryParams list" where
  "GetBeacon DecodeString store segmentId =
     (case DecodeString segmentId of
        Inl err \<Rightarrow>
          (ErrorResponse
             \<lparr>problem_Detail = Some (ErrorString err),
              problem_Status = StatusBadRequest,
              problem_Title = ''error decoding segment id'',
              problem_Type = Some BadRequest\<rparr>, [])
      | Inr id' \<Rightarrow>
          (let q = emptyQueryParams\<lparr>SegIDs := [id']\<rparr>
           in case store q of
                Inl err \<Rightarrow>
                  (ErrorResponse
                     \<lparr>problem_Detail = Some (ErrorString err),
                      problem_Status = StatusInternalServerError,
                      problem_Title = ''error getting beacons'',
                      problem_Type = Some InternalError\<rparr>, [q])
              | Inr results \<Rightarrow>
                  if length results = 0 then
                    (ErrorResponse
                       \<lparr>problem_Detail = Some (Text
                          (''no beacon matched provided segment ID: '' @ segmentId)),
                        problem_Status = StatusBadRequest,
                        problem_Title = ''malformed query parameter'',
                        problem_Type = Some BadRequest\<rparr>, [q])
                  else if length results > 1 then
                    (ErrorResponse
                       \<lparr>problem_Detail = Some (Text
                          (decimal (length results) @
                           '' beacons matched provided segment ID: '' @ segmentId)),
                        problem_Status = StatusBadRequest,
                        problem_Title = ''malformed query parameter'',
                        problem_Type = Some BadRequest\<rparr>, [q])
                  else (BeaconResponse (projectBeacon (results ! 0)), [q])))"

subsection \<open>Vocabulary of the properties\<close>

text \<open>
  The definitions of this subsection are not code of the handlers; they say what the
  properties below count and compare. A field of a request is malformed when its start
  ISD-AS does not parse, for every usage token that is not one of the four, when its
  ingress interface is outside 0 to 65535, and when its sort key is not a known one.
\<close>

definition knownUsage :: "BeaconUsage \<Rightarrow> bool" where
  "knownUsage f \<longleftrightarrow>
     f \<in> set [UpRegistration, DownRegistration, CoreRegistration, Propagation]"

definition knownSortKey :: "string \<Rightarrow> bool" where
  "knownSortKey k \<longleftrightarrow>
     k \<in> set [''expiration_time'', ''info_time'', ''start_isd_as'', ''last_updated'',
              ''ingress_interface'']"

definition malformedFields :: "(string \<Rightarrow> error + IA) \<Rightarrow> GetBeaconsParams \<Rightarrow> nat" where
  "malformedFields ParseIA params =
     (case StartIsdAs params of
        None \<Rightarrow> 0
      | Some s \<Rightarrow> (case ParseIA s of Inl err \<Rightarrow> 1 | Inr ia \<Rightarrow> 0)) +
     (case Usages params of
        None \<Rightarrow> 0
      | Some flags \<Rightarrow> length (filter (\<lambda>f. \<not> knownUsage f) flags)) +
     (case IngressInterface params of
        None \<Rightarrow> 0
      | Some i \<Rightarrow> if i < 0 \<or> 65535 < i then 1 else 0) +
     (case Sort params of
        None \<Rightarrow> 0
      | Some k \<Rightarrow> if knownSortKey k then 0 else 1)"

definition usageBit :: "BeaconUsage \<Rightarrow> Usage" where
  "usageBit f =
     (if f = CoreRegistration then UsageCoreReg
      else if f = DownRegistration then UsageDownReg
      else if f = Propagation then UsageProp
      else if f = UpRegistration then UsageUpReg
      else 0)"

definition unknownUsageError :: "BeaconUsage \<Rightarrow> error" where
  "unknownUsageError f = New ''unknown value for parameter'' [(''usage'', StringValue f)]"

definition usageMask :: "bool \<Rightarrow> bool \<Rightarrow> bool \<Rightarrow> bool \<Rightarrow> Usage" where
  "usageMask u d c p =
     (if u then UsageUpReg else 0) OR (if d then UsageDownReg else 0) OR
     (if c then UsageCoreReg else 0) OR (if p then UsageProp else 0)"

text \<open>
  What the documentation of \<^verbatim>\<open>sort.Sort\<close> promises for one call: the slice afterwards is
  a rearrangement of the slice before, and no element is less than an element before it.
\<close>

definition sortContract :: "sortWrapper \<Rightarrow> sortWrapper \<Rightarrow> bool" where
  "sortContract data result \<longleftrightarrow>
     mset (beacons result) = mset (beacons data) \<and>
     sorted_wrt (\<lambda>a b. \<not> wrapper_less data b a) (beacons result)"

subsection \<open>Example requests\<close>

text \<open>
  Stored beacons and requests on which the properties below are evaluated: thirteen
  beacons of which all but one have the same time of last update, two beacons of which
  the first has no hop, and three beacons with different keys. \<open>beaconIds\<close> reads the
  identifiers of a list response in their order.
\<close>

definition storedExample :: "string \<Rightarrow> time \<Rightarrow> ASEntry list \<Rightarrow> StoredBeacon" where
  "storedExample segId lastUpdated entries =
     \<lparr>Segment = \<lparr>Info_Timestamp = 0, ASEntries = entries, MinExpiry = 0, SegID = segId\<rparr>,
      InIfID = 0, Usage = 0, stored_LastUpdated = lastUpdated\<rparr>"

definition tiedStore :: "StoredBeacon list" where
  "tiedStore =
     [storedExample ''b00'' 0 [], storedExample ''b01'' 0 [], storedExample ''b02'' 0 [],
      storedExample ''b03'' 0 [], storedExample ''b04'' 0 [], storedExample ''b05'' 0 [],
      storedExample ''b06'' 0 [], storedExample ''b07'' 0 [], storedExample ''b08'' 0 [],
      storedExample ''b09'' 0 [], storedExample ''b10'' 0 [], storedExample ''b11'' 1 [],
      storedExample ''b12'' 0 []]"

definition hopsStore :: "StoredBeacon list" where
  "hopsStore =
     [storedExample ''aa'' 0 [],
      storedExample ''bb'' 0
        [\<lparr>Local_String = ''1-ff00:0:110'', ConsIngress = 0, ConsEgress = 2\<rparr>]]"

definition noParams :: GetBeaconsParams where
  "noParams =
     \<lparr>StartIsdAs = None, Usages = None, IngressInterface = None, All = None,
      ValidAt = None, Sort = None, Desc = None\<rparr>"

definition beaconIds :: "response \<Rightarrow> string list" where
  "beaconIds r = (case r of BeaconsResponse out \<Rightarrow> map beacon_Id out | _ \<Rightarrow> [])"

definition mixedStore :: "StoredBeacon list" where
  "mixedStore =
     [storedExample ''bb'' 3
        [\<lparr>Local_String = ''2-ff00:0:220'', ConsIngress = 0, ConsEgress = 2\<rparr>],
      storedExample ''aa'' 1 [],
      storedExample ''cc'' 2
        [\<lparr>Local_String = ''1-ff00:0:110'', ConsIngress = 0, ConsEgress = 1\<rparr>,
         \<lparr>Local_String = ''1-ff00:0:111'', ConsIngress = 4, ConsEgress = 0\<rparr>]]"

section \<open>Properties\<close>

subsection \<open>Health aggregation\<close>

lemma time_Until_le_0: "time_Until now t \<le> 0 \<longleftrightarrow> t \<le> now"
  by (simp add: time_Until_def time_Sub_def minDuration_def maxDuration_def Let_def)

lemma time_Until_less_6h: "time_Until now t < 6 * Hour \<longleftrightarrow> t - now < 6 * Hour"
  by (simp add: time_Until_def time_Sub_def minDuration_def maxDuration_def Hour_def Let_def)

lemma foldl_lessHealthy:
  "foldl lessHealthy a ss =
     (if a = Failing \<or> Failing \<in> set ss then Failing
      else if a = Degraded \<or> Degraded \<in> set ss then Degraded
      else Passing)"
proof (induction ss arbitrary: a)
  case Nil
  show ?case by (cases a) simp_all
next
  case (Cons s ss)
  have step: "foldl lessHealthy a (s # ss) = foldl lessHealthy (lessHealthy a s) ss"
    by simp
  have val: "lessHealthy a s =
      (if a = Failing \<or> s = Failing then Failing
       else if a = Degraded \<or> s = Degraded then Degraded else Passing)"
    by (cases a; cases s) (simp_all add: lessHealthy_def)
  show ?case
    unfolding step Cons.IH val by auto
qed

lemma AggregateHealthStatus_least_healthy:
  "AggregateHealthStatus ss =
     (if Failing \<in> set ss then Failing
      else if Degraded \<in> set ss then Degraded
      else Passing)"
  by (simp add: AggregateHealthStatus_def foldl_lessHealthy)

lemma health_Checks_GetHealth:
  "health_Checks (GetHealth now h) =
     signerCheck now (GetSignerHealth h) # trcCheck (GetTRCHealth h) #
     (if snd (GetCAHealth h) then [caCheck (fst (GetCAHealth h))] else [])"
  by (simp add: GetHealth_def healthChecks_def Let_def split: prod.split)

text \<open>
  C3. The signer check evaluates its rules in a fixed order and the first match wins:
  a missing signer fails, with the reason as detail when it is not empty; else an
  expiration at or before now fails with the detail "signer certificate has expired";
  else a trust root in its grace period degrades, with the expiry and the grace flag as
  data; else an expiration less than six hours away degrades, with the expiry as data and
  the detail "signer certificate is close to expiration"; else the check passes, with the
  expiry as data.
\<close>

theorem signer_check_priority:
  "(SignerMissing sh \<longrightarrow>
      check_Status (signerCheck now sh) = Failing \<and>
      check_Detail (signerCheck now sh) =
        (if SignerMissingDetail sh \<noteq> '''' then Some (SignerMissingDetail sh) else None) \<and>
      check_Data (signerCheck now sh) = Map.empty) \<and>
   (\<not> SignerMissing sh \<and> Expiration sh \<le> now \<longrightarrow>
      check_Status (signerCheck now sh) = Failing \<and>
      check_Detail (signerCheck now sh) = Some ''signer certificate has expired'' \<and>
      check_Data (signerCheck now sh) = [''expires_at'' \<mapsto> FormatRFC3339 (Expiration sh)]) \<and>
   (\<not> SignerMissing sh \<and> now < Expiration sh \<and> InGrace sh \<longrightarrow>
      check_Status (signerCheck now sh) = Degraded \<and>
      check_Data (signerCheck now sh) =
        [''expires_at'' \<mapsto> FormatRFC3339 (Expiration sh), ''in_grace'' \<mapsto> BoolValue True] \<and>
      check_Detail (signerCheck now sh) \<noteq> None) \<and>
   (\<not> SignerMissing sh \<and> now < Expiration sh \<and> \<not> InGrace sh \<and>
    Expiration sh - now < 6 * Hour \<longrightarrow>
      check_Status (signerCheck now sh) = Degraded \<and>
      check_Data (signerCheck now sh) = [''expires_at'' \<mapsto> FormatRFC3339 (Expiration sh)] \<and>
      check_Detail (signerCheck now sh) = Some ''signer certificate is close to expiration'') \<and>
   (\<not> SignerMissing sh \<and> \<not> InGrace sh \<and> 6 * Hour \<le> Expiration sh - now \<longrightarrow>
      check_Status (signerCheck now sh) = Passing \<and>
      check_Data (signerCheck now sh) = [''expires_at'' \<mapsto> FormatRFC3339 (Expiration sh)] \<and>
      check_Detail (signerCheck now sh) = None)"
proof -
  have pos: "0 < 6 * Hour"
    by (simp add: Hour_def)
  show ?thesis
    using pos
    by (auto simp add: signerCheck_def Let_def time_Until_le_0 time_Until_less_6h)
qed

theorem signer_check_priority_witness:
  "check_Status (signerCheck 100
      \<lparr>SignerMissing = True, SignerMissingDetail = ''no signer'', Expiration = 0,
       InGrace = False\<rparr>) = Failing \<and>
   check_Detail (signerCheck 100
      \<lparr>SignerMissing = True, SignerMissingDetail = ''no signer'', Expiration = 0,
       InGrace = False\<rparr>) = Some ''no signer'' \<and>
   check_Status (signerCheck (10 * Hour)
      \<lparr>SignerMissing = False, SignerMissingDetail = [],
       Expiration = 10 * Hour - 1000000000, InGrace = True\<rparr>) = Failing \<and>
   check_Status (signerCheck (10 * Hour)
      \<lparr>SignerMissing = False, SignerMissingDetail = [],
       Expiration = 13 * Hour, InGrace = True\<rparr>) = Degraded \<and>
   check_Detail (signerCheck (10 * Hour)
      \<lparr>SignerMissing = False, SignerMissingDetail = [],
       Expiration = 13 * Hour, InGrace = False\<rparr>) =
     Some ''signer certificate is close to expiration'' \<and>
   check_Status (signerCheck (10 * Hour)
      \<lparr>SignerMissing = False, SignerMissingDetail = [],
       Expiration = 10 * Hour + 30 * 24 * Hour, InGrace = False\<rparr>) = Passing"
  using
    signer_check_priority [of "\<lparr>SignerMissing = True, SignerMissingDetail = ''no signer'',
      Expiration = 0, InGrace = False\<rparr>" 100]
    signer_check_priority [of "\<lparr>SignerMissing = False, SignerMissingDetail = [],
      Expiration = 10 * Hour - 1000000000, InGrace = True\<rparr>" "10 * Hour"]
    signer_check_priority [of "\<lparr>SignerMissing = False, SignerMissingDetail = [],
      Expiration = 13 * Hour, InGrace = True\<rparr>" "10 * Hour"]
    signer_check_priority [of "\<lparr>SignerMissing = False, SignerMissingDetail = [],
      Expiration = 13 * Hour, InGrace = False\<rparr>" "10 * Hour"]
    signer_check_priority [of "\<lparr>SignerMissing = False, SignerMissingDetail = [],
      Expiration = 10 * Hour + 30 * 24 * Hour, InGrace = False\<rparr>" "10 * Hour"]
  by (simp add: Hour_def)

text \<open>
  C4. The report lists the signer check, then the trust-root check, then the CA check when
  present, and its overall status is the least healthy status among them: Failing if any
  check fails, else Degraded if any check is degraded, else Passing.
\<close>

theorem health_report_aggregate:
  "health_Checks (GetHealth now h) =
     signerCheck now (GetSignerHealth h) # trcCheck (GetTRCHealth h) #
     (if snd (GetCAHealth h) then [caCheck (fst (GetCAHealth h))] else []) \<and>
   health_Status (GetHealth now h) =
     (if Failing \<in> check_Status ` set (health_Checks (GetHealth now h)) then Failing
      else if Degraded \<in> check_Status ` set (health_Checks (GetHealth now h)) then Degraded
      else Passing)"
proof
  show "health_Checks (GetHealth now h) =
     signerCheck now (GetSignerHealth h) # trcCheck (GetTRCHealth h) #
     (if snd (GetCAHealth h) then [caCheck (fst (GetCAHealth h))] else [])"
    by (rule health_Checks_GetHealth)
next
  have "health_Status (GetHealth now h) =
      AggregateHealthStatus (map check_Status (health_Checks (GetHealth now h)))"
    by (simp add: GetHealth_def Let_def)
  then show "health_Status (GetHealth now h) =
     (if Failing \<in> check_Status ` set (health_Checks (GetHealth now h)) then Failing
      else if Degraded \<in> check_Status ` set (health_Checks (GetHealth now h)) then Degraded
      else Passing)"
    by (simp only: AggregateHealthStatus_least_healthy set_map)
qed

theorem health_report_aggregate_witness:
  "health_Status (GetHealth 0
      \<lparr>GetSignerHealth = \<lparr>SignerMissing = False, SignerMissingDetail = [],
         Expiration = 100 * Hour, InGrace = False\<rparr>,
       GetTRCHealth = \<lparr>TRCNotFound = False, TRCNotFoundDetail = [],
         TRCID = \<lparr>trc_ISD = 1, trc_Base = 1, trc_Serial = 2\<rparr>\<rparr>,
       GetCAHealth = (Starting, True)\<rparr>) = Degraded \<and>
   map check_Name (health_Checks (GetHealth 0
      \<lparr>GetSignerHealth = \<lparr>SignerMissing = False, SignerMissingDetail = [],
         Expiration = 100 * Hour, InGrace = False\<rparr>,
       GetTRCHealth = \<lparr>TRCNotFound = False, TRCNotFoundDetail = [],
         TRCID = \<lparr>trc_ISD = 1, trc_Base = 1, trc_Serial = 2\<rparr>\<rparr>,
       GetCAHealth = (Starting, True)\<rparr>)) =
     [''valid signer available'', ''TRC for local ISD available'', ''CPPKI CA Connection'']"
  using health_report_aggregate [of 0
      "\<lparr>GetSignerHealth = \<lparr>SignerMissing = False, SignerMissingDetail = [],
         Expiration = 100 * Hour, InGrace = False\<rparr>,
       GetTRCHealth = \<lparr>TRCNotFound = False, TRCNotFoundDetail = [],
         TRCID = \<lparr>trc_ISD = 1, trc_Base = 1, trc_Serial = 2\<rparr>\<rparr>,
       GetCAHealth = (Starting, True)\<rparr>"]
  by (simp add: signerCheck_def trcCheck_def caCheck_def Let_def time_Until_le_0
      time_Until_less_6h Hour_def Starting_def Available_def)

text \<open>
  C5. The CA check is in the report exactly when the CA probe says it applies; without it
  the report holds the signer and the trust-root check only. The CA check passes for the
  state Available and is degraded for every other state, it carries the state as data,
  and it never fails.
\<close>

theorem ca_check_inclusion:
  "((\<exists>c \<in> set (health_Checks (GetHealth now h)). check_Name c = ''CPPKI CA Connection'')
      \<longleftrightarrow> snd (GetCAHealth h)) \<and>
   (\<not> snd (GetCAHealth h) \<longrightarrow>
      health_Checks (GetHealth now h) =
        [signerCheck now (GetSignerHealth h), trcCheck (GetTRCHealth h)]) \<and>
   (snd (GetCAHealth h) \<longrightarrow>
      health_Checks (GetHealth now h) =
        [signerCheck now (GetSignerHealth h), trcCheck (GetTRCHealth h),
         caCheck (fst (GetCAHealth h))]) \<and>
   check_Status (caCheck status) = (if status = Available then Passing else Degraded) \<and>
   check_Data (caCheck status) = [''status'' \<mapsto> CAStatusValue status] \<and>
   check_Status (caCheck status) \<noteq> Failing"
proof -
  have names: "check_Name (signerCheck now (GetSignerHealth h)) \<noteq> ''CPPKI CA Connection''"
    "check_Name (trcCheck (GetTRCHealth h)) \<noteq> ''CPPKI CA Connection''"
    "check_Name (caCheck (fst (GetCAHealth h))) = ''CPPKI CA Connection''"
    by (simp_all add: signerCheck_def trcCheck_def caCheck_def Let_def)
  have ca: "check_Status (caCheck status) = (if status = Available then Passing else Degraded)"
    "check_Data (caCheck status) = [''status'' \<mapsto> CAStatusValue status]"
    by (simp_all add: caCheck_def Let_def)
  show ?thesis
    using names ca by (simp add: health_Checks_GetHealth)
qed

theorem ca_check_inclusion_witness:
  "health_Checks (GetHealth 0
      \<lparr>GetSignerHealth = \<lparr>SignerMissing = True, SignerMissingDetail = [],
         Expiration = 0, InGrace = False\<rparr>,
       GetTRCHealth = \<lparr>TRCNotFound = True, TRCNotFoundDetail = [],
         TRCID = \<lparr>trc_ISD = 0, trc_Base = 0, trc_Serial = 0\<rparr>\<rparr>,
       GetCAHealth = (Unavailable, False)\<rparr>) =
     [\<lparr>check_Status = Failing, check_Name = ''valid signer available'',
       check_Detail = None, check_Data = Map.empty\<rparr>,
      \<lparr>check_Status = Failing, check_Name = ''TRC for local ISD available'',
       check_Detail = None, check_Data = Map.empty\<rparr>] \<and>
   check_Status (caCheck Unavailable) = Degraded \<and>
   check_Status (caCheck Available) = Passing"
  using ca_check_inclusion [of 0
      "\<lparr>GetSignerHealth = \<lparr>SignerMissing = True, SignerMissingDetail = [],
         Expiration = 0, InGrace = False\<rparr>,
       GetTRCHealth = \<lparr>TRCNotFound = True, TRCNotFoundDetail = [],
         TRCID = \<lparr>trc_ISD = 0, trc_Base = 0, trc_Serial = 0\<rparr>\<rparr>,
       GetCAHealth = (Unavailable, False)\<rparr>" Unavailable]
    ca_check_inclusion [of 0
      "\<lparr>GetSignerHealth = \<lparr>SignerMissing = True, SignerMissingDetail = [],
         Expiration = 0, InGrace = False\<rparr>,
       GetTRCHealth = \<lparr>TRCNotFound = True, TRCNotFoundDetail = [],
         TRCID = \<lparr>trc_ISD = 0, trc_Base = 0, trc_Serial = 0\<rparr>\<rparr>,
       GetCAHealth = (Unavailable, False)\<rparr>" Available]
  by (simp add: signerCheck_def trcCheck_def Let_def Unavailable_def Available_def)

text \<open>
  C10. The trust-root check carries the probe's not-found detail whenever that string is
  not empty, also when the probe reports the TRC as found: the check is then Passing, with
  the TRC identifier as data and the detail beside it.
\<close>

theorem trc_check_detail_when_found:
  "TRCNotFoundDetail (GetTRCHealth h) \<noteq> '''' \<Longrightarrow>
     health_Checks (GetHealth now h) ! 1 = trcCheck (GetTRCHealth h) \<and>
     check_Detail (trcCheck (GetTRCHealth h)) = Some (TRCNotFoundDetail (GetTRCHealth h)) \<and>
     (\<not> TRCNotFound (GetTRCHealth h) \<longrightarrow>
        check_Status (trcCheck (GetTRCHealth h)) = Passing \<and>
        check_Data (trcCheck (GetTRCHealth h)) =
          [''base_number'' \<mapsto> VersionValue (trc_Base (TRCID (GetTRCHealth h))),
           ''serial_number'' \<mapsto> VersionValue (trc_Serial (TRCID (GetTRCHealth h))),
           ''isd'' \<mapsto> ISDValue (trc_ISD (TRCID (GetTRCHealth h)))])"
  by (simp add: health_Checks_GetHealth trcCheck_def Let_def)

theorem trc_check_detail_when_found_witness:
  "check_Status (health_Checks (GetHealth 0
      \<lparr>GetSignerHealth = \<lparr>SignerMissing = True, SignerMissingDetail = [],
         Expiration = 0, InGrace = False\<rparr>,
       GetTRCHealth = \<lparr>TRCNotFound = False, TRCNotFoundDetail = ''stale'',
         TRCID = \<lparr>trc_ISD = 1, trc_Base = 1, trc_Serial = 3\<rparr>\<rparr>,
       GetCAHealth = (Available, False)\<rparr>) ! 1) = Passing \<and>
   check_Detail (health_Checks (GetHealth 0
      \<lparr>GetSignerHealth = \<lparr>SignerMissing = True, SignerMissingDetail = [],
         Expiration = 0, InGrace = False\<rparr>,
       GetTRCHealth = \<lparr>TRCNotFound = False, TRCNotFoundDetail = ''stale'',
         TRCID = \<lparr>trc_ISD = 1, trc_Base = 1, trc_Serial = 3\<rparr>\<rparr>,
       GetCAHealth = (Available, False)\<rparr>) ! 1) = Some ''stale''"
  using trc_check_detail_when_found [of
      "\<lparr>GetSignerHealth = \<lparr>SignerMissing = True, SignerMissingDetail = [],
         Expiration = 0, InGrace = False\<rparr>,
       GetTRCHealth = \<lparr>TRCNotFound = False, TRCNotFoundDetail = ''stale'',
         TRCID = \<lparr>trc_ISD = 1, trc_Base = 1, trc_Serial = 3\<rparr>\<rparr>,
       GetCAHealth = (Available, False)\<rparr>" 0]
  by simp

subsection \<open>Filter validation\<close>

lemma usagesLoop_eq:
  "usagesLoop flags (usage, errs) =
     (foldl (\<lambda>u f. u OR usageBit f) usage flags,
      errs @ map unknownUsageError (filter (\<lambda>f. \<not> knownUsage f) flags))"
proof (induction flags arbitrary: usage errs)
  case Nil
  show ?case by simp
next
  case (Cons f flags)
  show ?case
    by (simp add: Cons.IH usageBit_def knownUsage_def unknownUsageError_def)
qed

lemma snd_parseStartIsdAs:
  "length (snd (parseStartIsdAs ParseIA params (q, errs))) =
     length errs +
     (case StartIsdAs params of
        None \<Rightarrow> 0
      | Some s \<Rightarrow> (case ParseIA s of Inl err \<Rightarrow> 1 | Inr ia \<Rightarrow> 0))"
  by (simp add: parseStartIsdAs_def split: option.split sum.split)

lemma snd_parseUsages:
  "length (snd (parseUsages params (q, errs))) =
     length errs +
     (case Usages params of
        None \<Rightarrow> 0
      | Some flags \<Rightarrow> length (filter (\<lambda>f. \<not> knownUsage f) flags))"
  by (simp add: parseUsages_def usagesLoop_eq split: option.split)

lemma snd_parseIngressInterface:
  "length (snd (parseIngressInterface params (q, errs))) =
     length errs +
     (case IngressInterface params of
        None \<Rightarrow> 0
      | Some i \<Rightarrow> if i < 0 \<or> 65535 < i then 1 else 0)"
  by (simp add: parseIngressInterface_def split: option.split)

lemma sortFactory_count:
  "(case sortFactory sortParam of Inl err \<Rightarrow> (1::nat) | Inr f \<Rightarrow> 0) =
     (case sortParam of None \<Rightarrow> 0 | Some k \<Rightarrow> if knownSortKey k then 0 else 1)"
  by (simp add: sortFactory_def knownSortKey_def Let_def split: option.split)

lemma length_errs_buildQuery:
  "length (fst (snd (buildQuery ParseIA now params))) = malformedFields ParseIA params"
proof -
  obtain q1 e1 where s1: "parseStartIsdAs ParseIA params (emptyQueryParams, []) = (q1, e1)"
    by (cases "parseStartIsdAs ParseIA params (emptyQueryParams, [])") auto
  obtain q2 e2 where s2: "parseUsages params (q1, e1) = (q2, e2)"
    by (cases "parseUsages params (q1, e1)") auto
  obtain q3 e3 where s3: "parseIngressInterface params (q2, e2) = (q3, e3)"
    by (cases "parseIngressInterface params (q2, e2)") auto
  have l1: "length e1 =
      (case StartIsdAs params of
         None \<Rightarrow> 0
       | Some s \<Rightarrow> (case ParseIA s of Inl err \<Rightarrow> 1 | Inr ia \<Rightarrow> 0))"
    using snd_parseStartIsdAs [of ParseIA params emptyQueryParams "[]"] s1 by simp
  have l2: "length e2 = length e1 +
      (case Usages params of
         None \<Rightarrow> 0
       | Some flags \<Rightarrow> length (filter (\<lambda>f. \<not> knownUsage f) flags))"
    using snd_parseUsages [of params q1 e1] s2 by simp
  have l3: "length e3 = length e2 +
      (case IngressInterface params of
         None \<Rightarrow> 0
       | Some i \<Rightarrow> if i < 0 \<or> 65535 < i then 1 else 0)"
    using snd_parseIngressInterface [of params q2 e2] s3 by simp
  have l4: "length (fst (snd (buildQuery ParseIA now params))) =
      length e3 + (case sortFactory (Sort params) of Inl err \<Rightarrow> 1 | Inr f \<Rightarrow> 0)"
    by (simp add: buildQuery_def s1 s2 s3 split: sum.split)
  show ?thesis
    unfolding l4 l3 l2 l1 malformedFields_def sortFactory_count by simp
qed

lemma fst_buildQuery:
  "fst (buildQuery ParseIA now params) =
     selectValidAt now params
       (fst (parseIngressInterface params
               (parseUsages params
                 (parseStartIsdAs ParseIA params (emptyQueryParams, [])))))"
  by (simp add: buildQuery_def split: prod.split sum.split)

lemma query_ValidAt_selectValidAt:
  "query_ValidAt (selectValidAt now params q) =
     (if All params = Some True then zeroTime
      else case ValidAt params of Some t \<Rightarrow> t | None \<Rightarrow> now)"
  by (auto simp add: selectValidAt_def split: option.split)

text \<open>
  C1. The validation errors of all malformed parameters of a \<^verbatim>\<open>GetBeacons\<close> request are
  accumulated: an unparsable start ISD-AS, every unknown usage token, an ingress interface
  out of range and an unknown sort key give one error each, so the number of errors is the
  number of malformed fields. If there is at least one, the request fails as a whole with
  status 400 and the text of the whole list, and the beacon store is not queried.
\<close>

theorem validation_errors_accumulate:
  "length (fst (snd (buildQuery ParseIA now params))) = malformedFields ParseIA params \<and>
   (0 < malformedFields ParseIA params \<longrightarrow>
      GetBeacons ParseIA store sortImpl now params =
        (ErrorResponse
           \<lparr>problem_Detail =
              Some (ErrorString (ErrList (fst (snd (buildQuery ParseIA now params))))),
            problem_Status = 400,
            problem_Title = ''malformed query parameters'',
            problem_Type = Some BadRequest\<rparr>, []))"
proof -
  obtain q errs sortFn where b: "buildQuery ParseIA now params = (q, errs, sortFn)"
    by (cases "buildQuery ParseIA now params") auto
  have len: "length errs = malformedFields ParseIA params"
    using length_errs_buildQuery [of ParseIA now params] b by simp
  have "0 < length errs \<Longrightarrow> GetBeacons ParseIA store sortImpl now params =
        (ErrorResponse
           \<lparr>problem_Detail = Some (ErrorString (ErrList errs)),
            problem_Status = 400,
            problem_Title = ''malformed query parameters'',
            problem_Type = Some BadRequest\<rparr>, [])"
    by (simp add: GetBeacons_def b ToError_def StatusBadRequest_def)
  then show ?thesis
    using len b by simp
qed

theorem validation_errors_accumulate_witness:
  "malformedFields (\<lambda>s. Inl (External ''invalid ISD-AS''))
     \<lparr>StartIsdAs = Some ''1-ff00'', Usages = Some [''bogus'', ''up_registration''],
      IngressInterface = Some 70000, All = None, ValidAt = None, Sort = Some ''size'',
      Desc = None\<rparr> = 4 \<and>
   GetBeacons (\<lambda>s. Inl (External ''invalid ISD-AS'')) (\<lambda>q. Inr []) (\<lambda>w. w) 0
     \<lparr>StartIsdAs = Some ''1-ff00'', Usages = Some [''bogus'', ''up_registration''],
      IngressInterface = Some 70000, All = None, ValidAt = None, Sort = Some ''size'',
      Desc = None\<rparr> =
     (ErrorResponse
        \<lparr>problem_Detail = Some (ErrorString (ErrList
           [Wrap ''parsing start_isd_as'' (External ''invalid ISD-AS''),
            New ''unknown value for parameter'' [(''usage'', StringValue ''bogus'')],
            New ''value for parameter out of range''
              [(''ingress_interface'', IntValue 70000)],
            New ''unknown query parameter'' [(''sort'', StringValue ''size'')]])),
         problem_Status = 400,
         problem_Title = ''malformed query parameters'',
         problem_Type = Some BadRequest\<rparr>, [])"
  using validation_errors_accumulate [of "\<lambda>s. Inl (External ''invalid ISD-AS'')" 0
      "\<lparr>StartIsdAs = Some ''1-ff00'', Usages = Some [''bogus'', ''up_registration''],
        IngressInterface = Some 70000, All = None, ValidAt = None, Sort = Some ''size'',
        Desc = None\<rparr>" "\<lambda>q. Inr []" "\<lambda>w. w"]
  by (simp add: malformedFields_def knownUsage_def knownSortKey_def buildQuery_def
      parseStartIsdAs_def parseUsages_def parseIngressInterface_def sortFactory_def
      UpRegistration_def DownRegistration_def CoreRegistration_def Propagation_def)

text \<open>
  C6. The valid-at instant of the filter is the zero time when the flag "all" is supplied
  and true, whatever \<^verbatim>\<open>validAt\<close> holds; else the supplied \<^verbatim>\<open>validAt\<close>; else the current
  time. A request without a malformed field sends this query, and no other, to the store.
\<close>

theorem valid_at_selection:
  "query_ValidAt (fst (buildQuery ParseIA now params)) =
     (if All params = Some True then zeroTime
      else case ValidAt params of Some t \<Rightarrow> t | None \<Rightarrow> now) \<and>
   (malformedFields ParseIA params = 0 \<longrightarrow>
      snd (GetBeacons ParseIA store sortImpl now params) =
        [fst (buildQuery ParseIA now params)])"
proof
  show "query_ValidAt (fst (buildQuery ParseIA now params)) =
     (if All params = Some True then zeroTime
      else case ValidAt params of Some t \<Rightarrow> t | None \<Rightarrow> now)"
    by (simp only: fst_buildQuery query_ValidAt_selectValidAt)
next
  obtain q errs sortFn where b: "buildQuery ParseIA now params = (q, errs, sortFn)"
    by (cases "buildQuery ParseIA now params") auto
  have len: "length errs = malformedFields ParseIA params"
    using length_errs_buildQuery [of ParseIA now params] b by simp
  have "errs = [] \<Longrightarrow> snd (GetBeacons ParseIA store sortImpl now params) = [q]"
    by (simp add: GetBeacons_def b ToError_def Let_def split: sum.split option.split)
  then show "malformedFields ParseIA params = 0 \<longrightarrow>
      snd (GetBeacons ParseIA store sortImpl now params) =
        [fst (buildQuery ParseIA now params)]"
    using len b by (cases errs) auto
qed

theorem valid_at_selection_witness:
  "query_ValidAt (fst (buildQuery (\<lambda>s. Inr 0) 7
     \<lparr>StartIsdAs = None, Usages = None, IngressInterface = None, All = Some True,
      ValidAt = Some 5, Sort = None, Desc = None\<rparr>)) = 0 \<and>
   snd (GetBeacons (\<lambda>s. Inr 0) (\<lambda>q. Inr []) (\<lambda>w. w) 7
     \<lparr>StartIsdAs = None, Usages = None, IngressInterface = None, All = Some True,
      ValidAt = Some 5, Sort = None, Desc = None\<rparr>) =
     [\<lparr>SegIDs = [], StartsAt = [], query_Usages = [], IngressInterfaces = [],
       query_ValidAt = 0\<rparr>] \<and>
   query_ValidAt (fst (buildQuery (\<lambda>s. Inr 0) 7
     \<lparr>StartIsdAs = None, Usages = None, IngressInterface = None, All = Some False,
      ValidAt = Some 5, Sort = None, Desc = None\<rparr>)) = 5 \<and>
   query_ValidAt (fst (buildQuery (\<lambda>s. Inr 0) 7
     \<lparr>StartIsdAs = None, Usages = None, IngressInterface = None, All = None,
      ValidAt = None, Sort = None, Desc = None\<rparr>)) = 7"
  using
    valid_at_selection [of "\<lambda>s. Inr 0" 7
      "\<lparr>StartIsdAs = None, Usages = None, IngressInterface = None, All = Some True,
        ValidAt = Some 5, Sort = None, Desc = None\<rparr>" "\<lambda>q. Inr []" "\<lambda>w. w"]
    valid_at_selection [of "\<lambda>s. Inr 0" 7
      "\<lparr>StartIsdAs = None, Usages = None, IngressInterface = None, All = Some False,
        ValidAt = Some 5, Sort = None, Desc = None\<rparr>" "\<lambda>q. Inr []" "\<lambda>w. w"]
    valid_at_selection [of "\<lambda>s. Inr 0" 7
      "\<lparr>StartIsdAs = None, Usages = None, IngressInterface = None, All = None,
        ValidAt = None, Sort = None, Desc = None\<rparr>" "\<lambda>q. Inr []" "\<lambda>w. w"]
  by (simp add: malformedFields_def zeroTime_def buildQuery_def parseStartIsdAs_def
      parseUsages_def parseIngressInterface_def selectValidAt_def sortFactory_def
      emptyQueryParams_def)

subsection \<open>Usage codec\<close>

lemma UnpackBeaconUsages_usageMask:
  "UnpackBeaconUsages (usageMask u d c p) =
     (if u then [UpRegistration] else []) @ (if d then [DownRegistration] else []) @
     (if c then [CoreRegistration] else []) @ (if p then [Propagation] else [])"
  by (cases u; cases d; cases c; cases p)
    (simp_all add: usageMask_def UnpackBeaconUsages_def UsageUpReg_def UsageDownReg_def
      UsageCoreReg_def UsageProp_def)

lemma usagesLoop_usageMask:
  "usagesLoop
     ((if u then [UpRegistration] else []) @ (if d then [DownRegistration] else []) @
      (if c then [CoreRegistration] else []) @ (if p then [Propagation] else []))
     (0, errs) = (usageMask u d c p, errs)"
  by (cases u; cases d; cases c; cases p)
    (simp_all add: usageMask_def UsageUpReg_def UsageDownReg_def
      UsageCoreReg_def UsageProp_def UpRegistration_def DownRegistration_def
      CoreRegistration_def Propagation_def)

lemma foldr_or_usageMask:
  "set fs \<subseteq> {UsageUpReg, UsageDownReg, UsageCoreReg, UsageProp} \<Longrightarrow>
     foldr (OR) fs 0 =
       usageMask (UsageUpReg \<in> set fs) (UsageDownReg \<in> set fs)
         (UsageCoreReg \<in> set fs) (UsageProp \<in> set fs)"
proof (induction fs)
  case Nil
  show ?case by (simp add: usageMask_def)
next
  case (Cons f fs)
  then have f: "f = UsageUpReg \<or> f = UsageDownReg \<or> f = UsageCoreReg \<or> f = UsageProp"
    and IH: "foldr (OR) fs 0 =
       usageMask (UsageUpReg \<in> set fs) (UsageDownReg \<in> set fs)
         (UsageCoreReg \<in> set fs) (UsageProp \<in> set fs)"
    by auto
  have d: "UsageUpReg \<noteq> UsageDownReg" "UsageUpReg \<noteq> UsageCoreReg" "UsageUpReg \<noteq> UsageProp"
    "UsageDownReg \<noteq> UsageCoreReg" "UsageDownReg \<noteq> UsageProp" "UsageCoreReg \<noteq> UsageProp"
    by (simp_all add: UsageUpReg_def UsageDownReg_def UsageCoreReg_def UsageProp_def)
  show ?case
    using f d
    apply (simp add: IH)
    apply (elim disjE)
    apply (simp_all add: usageMask_def or.assoc or.left_commute or.commute)
    done
qed

lemma query_Usages_buildQuery:
  "query_Usages (fst (buildQuery ParseIA now params)) =
     (case Usages params of
        None \<Rightarrow> []
      | Some flags \<Rightarrow> [foldl (\<lambda>u f. u OR usageBit f) 0 flags])"
proof -
  obtain q1 e1 where s1: "parseStartIsdAs ParseIA params (emptyQueryParams, []) = (q1, e1)"
    by (cases "parseStartIsdAs ParseIA params (emptyQueryParams, [])") auto
  have u1: "query_Usages q1 = []"
    using s1
    by (auto simp add: parseStartIsdAs_def emptyQueryParams_def split: option.splits sum.splits)
  have u2: "query_Usages (fst (parseUsages params (q1, e1))) =
      (case Usages params of
         None \<Rightarrow> []
       | Some flags \<Rightarrow> [foldl (\<lambda>u f. u OR usageBit f) 0 flags])"
    by (simp add: parseUsages_def usagesLoop_eq u1 split: option.split)
  have u3: "query_Usages (fst (parseIngressInterface params qe)) = query_Usages (fst qe)" for qe
    by (cases qe) (simp add: parseIngressInterface_def split: option.split)
  have u4: "query_Usages (selectValidAt now params q) = query_Usages q" for q
    by (simp add: selectValidAt_def)
  show ?thesis
    by (simp only: fst_buildQuery u4 u3 s1 u2)
qed

lemma UnpackBeaconUsages_order:
  "UnpackBeaconUsages (usageMask u d c p) =
     filter (\<lambda>t. t \<in> set (UnpackBeaconUsages (usageMask u d c p)))
       [UpRegistration, DownRegistration, CoreRegistration, Propagation]"
  unfolding UnpackBeaconUsages_usageMask
  by (cases u; cases d; cases c; cases p)
    (simp_all add: UpRegistration_def DownRegistration_def CoreRegistration_def
      Propagation_def)

text \<open>
  C7. For every subset of the four usage flags, unpacking the bitmask of the subset and
  matching the tokens again, as the filter builder does, gives the bitmask back without
  an error; and the tokens come in the fixed order Up, Down, Core, Propagation.
\<close>

theorem usage_round_trip:
  assumes "set fs \<subseteq> {UsageUpReg, UsageDownReg, UsageCoreReg, UsageProp}"
  shows
    "usagesLoop (UnpackBeaconUsages (foldr (OR) fs 0)) (0, []) = (foldr (OR) fs 0, []) \<and>
     query_Usages (fst (buildQuery ParseIA now
        (params\<lparr>Usages := Some (UnpackBeaconUsages (foldr (OR) fs 0))\<rparr>))) =
       [foldr (OR) fs 0] \<and>
     UnpackBeaconUsages (foldr (OR) fs 0) =
       filter (\<lambda>t. t \<in> set (UnpackBeaconUsages (foldr (OR) fs 0)))
         [UpRegistration, DownRegistration, CoreRegistration, Propagation]"
proof -
  define u d c p where "u = (UsageUpReg \<in> set fs)" and "d = (UsageDownReg \<in> set fs)"
    and "c = (UsageCoreReg \<in> set fs)" and "p = (UsageProp \<in> set fs)"
  have m: "foldr (OR) fs 0 = usageMask u d c p"
    unfolding u_def d_def c_def p_def by (rule foldr_or_usageMask [OF assms])
  have loop: "usagesLoop (UnpackBeaconUsages (usageMask u d c p)) (0, errs) =
      (usageMask u d c p, errs)" for errs
    by (simp only: UnpackBeaconUsages_usageMask usagesLoop_usageMask)
  have "[foldl (\<lambda>u f. u OR usageBit f) 0 (UnpackBeaconUsages (usageMask u d c p))] =
      [fst (usagesLoop (UnpackBeaconUsages (usageMask u d c p)) (0, []))]"
    by (simp only: usagesLoop_eq fst_conv)
  then have q: "query_Usages (fst (buildQuery ParseIA now
        (params\<lparr>Usages := Some (UnpackBeaconUsages (usageMask u d c p))\<rparr>))) =
       [usageMask u d c p]"
    by (simp add: query_Usages_buildQuery loop)
  show ?thesis
    unfolding m using loop [of "[]"] q UnpackBeaconUsages_order [of u d c p] by simp
qed

theorem usage_round_trip_witness:
  "set [UsageProp, UsageUpReg] \<subseteq> {UsageUpReg, UsageDownReg, UsageCoreReg, UsageProp} \<and>
   UnpackBeaconUsages 9 = [''up_registration'', ''propagation''] \<and>
   usagesLoop [''up_registration'', ''propagation''] (0, []) = (9, []) \<and>
   query_Usages (fst (buildQuery (\<lambda>s. Inr 0) 0
     \<lparr>StartIsdAs = None, Usages = Some [''up_registration'', ''propagation''],
      IngressInterface = None, All = None, ValidAt = None, Sort = None,
      Desc = None\<rparr>)) = [9]"
proof -
  have s: "set [UsageProp, UsageUpReg] \<subseteq> {UsageUpReg, UsageDownReg, UsageCoreReg, UsageProp}"
    by simp
  have u: "UnpackBeaconUsages 9 = [''up_registration'', ''propagation'']"
    by (simp add: UnpackBeaconUsages_def UsageUpReg_def UsageDownReg_def UsageCoreReg_def
        UsageProp_def UpRegistration_def Propagation_def)
  have f: "foldr (OR) [UsageProp, UsageUpReg] 0 = 9"
    by (simp add: UsageProp_def UsageUpReg_def)
  show ?thesis
    using s usage_round_trip [OF s, of "\<lambda>s. Inr 0" 0
      "\<lparr>StartIsdAs = None, Usages = None, IngressInterface = None, All = None,
        ValidAt = None, Sort = None, Desc = None\<rparr>"]
    unfolding f u
    by (simp add: UpRegistration_def DownRegistration_def CoreRegistration_def
        Propagation_def)
qed

subsection \<open>Exact lookup\<close>

text \<open>
  C9. For a lookup with a segment identifier that decodes, a store result without a
  record and one with more than one record are both answered with status 400 and the
  title "malformed query parameter"; the projected beacon is returned exactly when one
  record matched.
\<close>

theorem exact_lookup:
  assumes "DecodeString segmentId = Inr id'"
    and "store (emptyQueryParams\<lparr>SegIDs := [id']\<rparr>) = Inr results"
  shows
    "(length results = 0 \<longrightarrow>
        GetBeacon DecodeString store segmentId =
          (ErrorResponse
             \<lparr>problem_Detail = Some (Text
                (''no beacon matched provided segment ID: '' @ segmentId)),
              problem_Status = 400,
              problem_Title = ''malformed query parameter'',
              problem_Type = Some BadRequest\<rparr>,
           [emptyQueryParams\<lparr>SegIDs := [id']\<rparr>])) \<and>
     (1 < length results \<longrightarrow>
        GetBeacon DecodeString store segmentId =
          (ErrorResponse
             \<lparr>problem_Detail = Some (Text
                (decimal (length results) @
                 '' beacons matched provided segment ID: '' @ segmentId)),
              problem_Status = 400,
              problem_Title = ''malformed query parameter'',
              problem_Type = Some BadRequest\<rparr>,
           [emptyQueryParams\<lparr>SegIDs := [id']\<rparr>])) \<and>
     ((\<exists>b. fst (GetBeacon DecodeString store segmentId) = BeaconResponse b) \<longleftrightarrow>
        length results = 1) \<and>
     (length results = 1 \<longrightarrow>
        fst (GetBeacon DecodeString store segmentId) =
          BeaconResponse (projectBeacon (results ! 0)))"
proof -
  consider "length results = 0" | "length results = 1" | "1 < length results"
    by arith
  then show ?thesis
    using assms
    by cases (auto simp add: GetBeacon_def Let_def StatusBadRequest_def simp del: decimal.simps)
qed

theorem exact_lookup_witness:
  "GetBeacon (\<lambda>s. Inr [0xAB])
     (\<lambda>q. Inr
        [\<lparr>Segment = \<lparr>Info_Timestamp = 1, ASEntries = [], MinExpiry = 2, SegID = ''ab''\<rparr>,
          InIfID = 1, Usage = 1, stored_LastUpdated = 3\<rparr>,
         \<lparr>Segment = \<lparr>Info_Timestamp = 1, ASEntries = [], MinExpiry = 2, SegID = ''ab''\<rparr>,
          InIfID = 2, Usage = 1, stored_LastUpdated = 4\<rparr>]) ''ab'' =
     (ErrorResponse
        \<lparr>problem_Detail = Some (Text ''2 beacons matched provided segment ID: ab''),
         problem_Status = 400,
         problem_Title = ''malformed query parameter'',
         problem_Type = Some BadRequest\<rparr>,
      [\<lparr>SegIDs = [[0xAB]], StartsAt = [], query_Usages = [], IngressInterfaces = [],
        query_ValidAt = 0\<rparr>]) \<and>
   GetBeacon (\<lambda>s. Inr [0xAB])
     (\<lambda>q. Inr
        [\<lparr>Segment = \<lparr>Info_Timestamp = 1, ASEntries = [], MinExpiry = 2, SegID = ''ab''\<rparr>,
          InIfID = 1, Usage = 1, stored_LastUpdated = 3\<rparr>]) ''ab'' =
     (BeaconResponse
        \<lparr>beacon_Usages = [''up_registration''], beacon_IngressInterface = 1,
         beacon_Id = ''ab'', beacon_LastUpdated = 3, beacon_Timestamp = 1,
         beacon_Expiration = 2, beacon_Hops = []\<rparr>,
      [\<lparr>SegIDs = [[0xAB]], StartsAt = [], query_Usages = [], IngressInterfaces = [],
        query_ValidAt = 0\<rparr>])"
proof -
  have d: "decimal (Suc (Suc 0)) = ''2''"
    by code_simp
  have a: "(\<lambda>s::string. (Inr [0xAB] :: error + 8 word list)) ''ab'' = Inr [0xAB]"
    by simp
  show ?thesis
    using
      exact_lookup [of "\<lambda>s. Inr [0xAB]" "''ab''" "[0xAB]"
        "\<lambda>q. Inr
          [\<lparr>Segment = \<lparr>Info_Timestamp = 1, ASEntries = [], MinExpiry = 2, SegID = ''ab''\<rparr>,
            InIfID = 1, Usage = 1, stored_LastUpdated = 3\<rparr>,
           \<lparr>Segment = \<lparr>Info_Timestamp = 1, ASEntries = [], MinExpiry = 2, SegID = ''ab''\<rparr>,
            InIfID = 2, Usage = 1, stored_LastUpdated = 4\<rparr>]"
        "[\<lparr>Segment = \<lparr>Info_Timestamp = 1, ASEntries = [], MinExpiry = 2, SegID = ''ab''\<rparr>,
            InIfID = 1, Usage = 1, stored_LastUpdated = 3\<rparr>,
           \<lparr>Segment = \<lparr>Info_Timestamp = 1, ASEntries = [], MinExpiry = 2, SegID = ''ab''\<rparr>,
            InIfID = 2, Usage = 1, stored_LastUpdated = 4\<rparr>]"]
    by (simp add: d GetBeacon_def emptyQueryParams_def zeroTime_def projectBeacon_def
        UnpackBeaconUsages_def UsageUpReg_def UsageDownReg_def UsageCoreReg_def
        UsageProp_def UpRegistration_def StatusBadRequest_def del: decimal.simps)
qed

subsection \<open>Sorting\<close>

lemma sortFactory_Inr:
  "sortFactory k = Inr f \<Longrightarrow> f bs = \<lparr>beacons = bs, wrapper_less = wrapper_less (f [])\<rparr>"
  by (auto simp add: sortFactory_def Let_def split: if_splits)

lemma sortFactory_start_isd_as:
  "sortFactory (Some ''start_isd_as'') = Inr f \<Longrightarrow>
     wrapper_less (f bs) a b =
       (if length (beacon_Hops a) = 0 \<or> length (beacon_Hops b) = 0
        then length (beacon_Hops a) < length (beacon_Hops b)
        else hop_IsdAs (beacon_Hops a ! 0) < hop_IsdAs (beacon_Hops b ! 0))"
  by (auto simp add: sortFactory_def Let_def split: if_splits)

lemma requestSorter_fields:
  "sortFactory k = Inr f \<Longrightarrow>
     beacons (requestSorter f params rep) = rep \<and>
     wrapper_less (requestSorter f params rep) =
       (if Desc params = Some True then (\<lambda>a b. wrapper_less (f []) b a)
        else wrapper_less (f []))"
  using sortFactory_Inr [of k f rep]
  by (cases "Desc params") (auto simp add: requestSorter_def sort_Reverse_def Let_def)

lemma GetBeacons_sorted:
  assumes "malformedFields ParseIA params = 0"
    and "store (fst (buildQuery ParseIA now params)) = Inr results"
    and "sortFactory (Sort params) = Inr f"
  shows "GetBeacons ParseIA store sortImpl now params =
     (BeaconsResponse
        (beacons (sortImpl (requestSorter f params (map projectBeacon results)))),
      [fst (buildQuery ParseIA now params)])"
proof -
  obtain q errs sortFn where b: "buildQuery ParseIA now params = (q, errs, sortFn)"
    by (cases "buildQuery ParseIA now params") auto
  have "length errs = 0"
    using length_errs_buildQuery [of ParseIA now params] b assms(1) by simp
  then have e: "errs = []"
    by simp
  have f: "sortFn = Some f"
    using b assms(3) by (auto simp add: buildQuery_def split: prod.splits sum.splits)
  show ?thesis
    using assms(2) by (simp add: GetBeacons_def b e f ToError_def)
qed

text \<open>
  C2, as amended. The handler sorts the projected records by the single resolved key
  with \<^verbatim>\<open>sort.Sort\<close>, which promises an order and no stability. Whenever that call orders
  the slice as documented, the response is a rearrangement of the projected store
  records in which no record is followed by one with a strictly smaller key, or, when
  \<^verbatim>\<open>desc\<close> is true, by one with a strictly larger key; descending order comes from the
  reversed comparator, the slice handed to the sort is in store order either way. The
  order of records whose keys tie is not fixed.
\<close>

theorem beacon_sort_ordered:
  assumes "malformedFields ParseIA params = 0"
    and "store (fst (buildQuery ParseIA now params)) = Inr results"
    and "sortFactory (Sort params) = Inr f"
    and "sortContract (requestSorter f params (map projectBeacon results))
           (sortImpl (requestSorter f params (map projectBeacon results)))"
  shows "\<exists>out. GetBeacons ParseIA store sortImpl now params =
           (BeaconsResponse out, [fst (buildQuery ParseIA now params)]) \<and>
         mset out = mset (map projectBeacon results) \<and>
         beacons (requestSorter f params (map projectBeacon results)) =
           map projectBeacon results \<and>
         (if Desc params = Some True
          then sorted_wrt (\<lambda>a b. \<not> wrapper_less (f []) a b) out
          else sorted_wrt (\<lambda>a b. \<not> wrapper_less (f []) b a) out)"
proof -
  define w where "w = requestSorter f params (map projectBeacon results)"
  define out where "out = beacons (sortImpl w)"
  have run: "GetBeacons ParseIA store sortImpl now params =
      (BeaconsResponse out, [fst (buildQuery ParseIA now params)])"
    unfolding out_def w_def
    using assms(1) assms(2) assms(3)
      GetBeacons_sorted [where ParseIA = ParseIA and params = params and store = store
        and now = now and results = results and f = f and sortImpl = sortImpl]
    by simp
  have fields: "beacons w = map projectBeacon results"
    "wrapper_less w =
       (if Desc params = Some True then (\<lambda>a b. wrapper_less (f []) b a)
        else wrapper_less (f []))"
    unfolding w_def using requestSorter_fields [OF assms(3)] by simp_all
  have perm: "mset out = mset (map projectBeacon results)"
    using assms(4) fields(1) unfolding sortContract_def out_def w_def by simp
  have srt: "sorted_wrt (\<lambda>a b. \<not> wrapper_less w b a) out"
    using assms(4) unfolding sortContract_def out_def w_def by simp
  have "if Desc params = Some True
        then sorted_wrt (\<lambda>a b. \<not> wrapper_less (f []) a b) out
        else sorted_wrt (\<lambda>a b. \<not> wrapper_less (f []) b a) out"
    using srt by (cases "Desc params = Some True") (simp_all add: fields(2))
  with run perm fields(1) show ?thesis
    unfolding w_def by blast
qed

theorem beacon_sort_ordered_witness:
  "sortContract
     (requestSorter (projr (sortFactory (Some ''last_updated'')))
        (noParams\<lparr>Sort := Some ''last_updated'', Desc := Some True\<rparr>)
        (map projectBeacon mixedStore))
     (librarySort
        (requestSorter (projr (sortFactory (Some ''last_updated'')))
           (noParams\<lparr>Sort := Some ''last_updated'', Desc := Some True\<rparr>)
           (map projectBeacon mixedStore))) \<and>
   beaconIds (fst (GetBeacons (\<lambda>s. Inr 0) (\<lambda>q. Inr mixedStore) librarySort 0
      (noParams\<lparr>Sort := Some ''last_updated'', Desc := Some True\<rparr>))) =
     [''bb'', ''cc'', ''aa'']"
proof -
  let ?P = "noParams\<lparr>Sort := Some ''last_updated'', Desc := Some True\<rparr>"
  let ?f = "projr (sortFactory (Some ''last_updated''))"
  have h1: "malformedFields (\<lambda>s. Inr 0) ?P = 0"
    by code_simp
  have h2: "(\<lambda>q. Inr mixedStore) (fst (buildQuery (\<lambda>s. Inr 0) 0 ?P)) = Inr mixedStore"
    by simp
  have h3: "sortFactory (Sort ?P) = Inr ?f"
    by (simp add: sortFactory_def noParams_def)
  have h4: "sortContract (requestSorter ?f ?P (map projectBeacon mixedStore))
      (librarySort (requestSorter ?f ?P (map projectBeacon mixedStore)))"
    unfolding sortContract_def by code_simp
  have ids: "beaconIds (fst (GetBeacons (\<lambda>s. Inr 0) (\<lambda>q. Inr mixedStore) librarySort 0 ?P)) =
      [''bb'', ''cc'', ''aa'']"
    by code_simp
  show ?thesis
    using h4 ids
      beacon_sort_ordered [where ParseIA = "\<lambda>s. Inr 0" and params = ?P
        and store = "\<lambda>q. Inr mixedStore" and now = 0 and results = mixedStore
        and f = ?f and sortImpl = librarySort, OF h1 h2 h3 h4]
    by simp
qed

text \<open>
  The claim as stated fails on thirteen beacons of which twelve tie: the stable order by
  \<^verbatim>\<open>last_updated\<close> starts with b00, the response starts with b06, and the tied records
  come in different orders in the ascending and the descending response.
\<close>

theorem beacon_sort_not_stable:
  "sort_Sort
     \<lparr>beacons = map projectBeacon tiedStore,
      wrapper_less = (\<lambda>a b. beacon_LastUpdated a < beacon_LastUpdated b)\<rparr> \<noteq> None \<and>
   sort_Sort
     \<lparr>beacons = map projectBeacon tiedStore,
      wrapper_less = (\<lambda>a b. beacon_LastUpdated b < beacon_LastUpdated a)\<rparr> \<noteq> None \<and>
   map beacon_LastUpdated (map projectBeacon tiedStore) =
     [0, 0, 0, 0, 0, 0, 0, 0, 0, 0, 0, 1, 0] \<and>
   map beacon_Id (sort_key beacon_LastUpdated (map projectBeacon tiedStore)) =
     [''b00'', ''b01'', ''b02'', ''b03'', ''b04'', ''b05'', ''b06'', ''b07'', ''b08'', ''b09'',
      ''b10'', ''b12'', ''b11''] \<and>
   beaconIds (fst (GetBeacons (\<lambda>s. Inr 0) (\<lambda>q. Inr tiedStore) librarySort 0 noParams)) =
     [''b06'', ''b01'', ''b02'', ''b03'', ''b04'', ''b05'', ''b00'', ''b07'', ''b08'', ''b09'',
      ''b10'', ''b12'', ''b11''] \<and>
   beaconIds (fst (GetBeacons (\<lambda>s. Inr 0) (\<lambda>q. Inr tiedStore) librarySort 0
      (noParams\<lparr>Desc := Some True\<rparr>))) =
     [''b11'', ''b06'', ''b02'', ''b03'', ''b04'', ''b05'', ''b00'', ''b07'', ''b08'', ''b09'',
      ''b10'', ''b01'', ''b12'']"
  by code_simp

text \<open>
  C8, as amended. For a request sorted by \<^verbatim>\<open>start_isd_as\<close> whose \<^verbatim>\<open>sort.Sort\<close> call orders
  the slice as documented: without \<^verbatim>\<open>desc\<close>, or with \<^verbatim>\<open>desc\<close> false, every record before
  a record with zero hops has zero hops itself, whatever the ISD-AS strings are; with
  \<^verbatim>\<open>desc\<close> true the order is the reverse one, every record after a record with zero hops
  has zero hops itself.
\<close>

theorem start_isd_as_zero_hops_first:
  assumes "Sort params = Some ''start_isd_as''"
    and "malformedFields ParseIA params = 0"
    and "store (fst (buildQuery ParseIA now params)) = Inr results"
    and "sortFactory (Sort params) = Inr f"
    and "sortContract (requestSorter f params (map projectBeacon results))
           (sortImpl (requestSorter f params (map projectBeacon results)))"
  shows "\<exists>out. GetBeacons ParseIA store sortImpl now params =
           (BeaconsResponse out, [fst (buildQuery ParseIA now params)]) \<and>
         (\<forall>i j. i < j \<and> j < length out \<longrightarrow>
            (if Desc params = Some True
             then beacon_Hops (out ! i) = [] \<longrightarrow> beacon_Hops (out ! j) = []
             else beacon_Hops (out ! j) = [] \<longrightarrow> beacon_Hops (out ! i) = []))"
proof -
  define w where "w = requestSorter f params (map projectBeacon results)"
  define out where "out = beacons (sortImpl w)"
  have run: "GetBeacons ParseIA store sortImpl now params =
      (BeaconsResponse out, [fst (buildQuery ParseIA now params)])"
    unfolding out_def w_def
    using assms(2) assms(3) assms(4)
      GetBeacons_sorted [where ParseIA = ParseIA and params = params and store = store
        and now = now and results = results and f = f and sortImpl = sortImpl]
    by simp
  have srt: "sorted_wrt (\<lambda>a b. \<not> wrapper_less w b a) out"
    using assms(5) unfolding sortContract_def out_def w_def by simp
  have f0: "sortFactory (Some ''start_isd_as'') = Inr f"
    using assms(1) assms(4) by simp
  have less0: "wrapper_less (f []) a b =
       (if length (beacon_Hops a) = 0 \<or> length (beacon_Hops b) = 0
        then length (beacon_Hops a) < length (beacon_Hops b)
        else hop_IsdAs (beacon_Hops a ! 0) < hop_IsdAs (beacon_Hops b ! 0))" for a b
    by (rule sortFactory_start_isd_as [OF f0])
  have wl: "wrapper_less w =
       (if Desc params = Some True then (\<lambda>a b. wrapper_less (f []) b a)
        else wrapper_less (f []))"
    unfolding w_def using requestSorter_fields [OF assms(4)] by simp
  have ord: "\<not> wrapper_less w (out ! j) (out ! i)" if "i < j" "j < length out" for i j
    using srt that by (simp add: sorted_wrt_iff_nth_less)
  have "if Desc params = Some True
        then beacon_Hops (out ! i) = [] \<longrightarrow> beacon_Hops (out ! j) = []
        else beacon_Hops (out ! j) = [] \<longrightarrow> beacon_Hops (out ! i) = []"
    if "i < j" "j < length out" for i j
    using ord [OF that] by (auto simp add: wl less0)
  with run show ?thesis
    by blast
qed

theorem start_isd_as_zero_hops_first_witness:
  "sortContract
     (requestSorter (projr (sortFactory (Some ''start_isd_as'')))
        (noParams\<lparr>Sort := Some ''start_isd_as''\<rparr>) (map projectBeacon mixedStore))
     (librarySort
        (requestSorter (projr (sortFactory (Some ''start_isd_as'')))
           (noParams\<lparr>Sort := Some ''start_isd_as''\<rparr>) (map projectBeacon mixedStore))) \<and>
   beaconIds (fst (GetBeacons (\<lambda>s. Inr 0) (\<lambda>q. Inr mixedStore) librarySort 0
      (noParams\<lparr>Sort := Some ''start_isd_as''\<rparr>))) = [''aa'', ''cc'', ''bb'']"
proof -
  let ?P = "noParams\<lparr>Sort := Some ''start_isd_as''\<rparr>"
  let ?f = "projr (sortFactory (Some ''start_isd_as''))"
  have h0: "Sort ?P = Some ''start_isd_as''"
    by simp
  have h1: "malformedFields (\<lambda>s. Inr 0) ?P = 0"
    by code_simp
  have h2: "(\<lambda>q. Inr mixedStore) (fst (buildQuery (\<lambda>s. Inr 0) 0 ?P)) = Inr mixedStore"
    by simp
  have h3: "sortFactory (Sort ?P) = Inr ?f"
    by (simp add: sortFactory_def noParams_def)
  have h4: "sortContract (requestSorter ?f ?P (map projectBeacon mixedStore))
      (librarySort (requestSorter ?f ?P (map projectBeacon mixedStore)))"
    unfolding sortContract_def by code_simp
  have ids: "beaconIds (fst (GetBeacons (\<lambda>s. Inr 0) (\<lambda>q. Inr mixedStore) librarySort 0 ?P)) =
      [''aa'', ''cc'', ''bb'']"
    by code_simp
  show ?thesis
    using h4 ids
      start_isd_as_zero_hops_first [where ParseIA = "\<lambda>s. Inr 0" and params = ?P
        and store = "\<lambda>q. Inr mixedStore" and now = 0 and results = mixedStore
        and f = ?f and sortImpl = librarySort, OF h0 h1 h2 h3 h4]
    by simp
qed

text \<open>
  The claim as stated fails for a descending request: the record with zero hops comes
  last.
\<close>

theorem start_isd_as_descending_zero_hops_last:
  "map (\<lambda>b. length (beacon_Hops b)) (map projectBeacon hopsStore) = [0, 1] \<and>
   sort_Sort
     (requestSorter (projr (sortFactory (Some ''start_isd_as'')))
        (noParams\<lparr>Sort := Some ''start_isd_as'', Desc := Some True\<rparr>)
        (map projectBeacon hopsStore)) \<noteq> None \<and>
   beaconIds (fst (GetBeacons (\<lambda>s. Inr 0) (\<lambda>q. Inr hopsStore) librarySort 0
      (noParams\<lparr>Sort := Some ''start_isd_as'', Desc := Some True\<rparr>))) = [''bb'', ''aa'']"
  by code_simp

end
